theory Spec2Isabelle
  imports Complex_Main "HOL-Library.Log_Nat"
begin

section \<open>The backtest engine of ChartBeacon (src/api/backtest.py)\<close>

text \<open>
  A shallow embedding of \<^verbatim>\<open>BacktestEngine\<close>. Python's floats are IEEE binary64
  numbers, and an outcome of the engine can turn on the last bit of one: whether a
  close is at the stop-loss threshold, how many whole shares a sum buys, whether a
  deviation is 0. The embedding has two levels of arithmetic.

  \<^item> Doubles, every operation rounded to nearest with ties to even (\<open>round_double\<close>
    and \<open>f64_add\<close>, \<open>f64_sub\<close>, \<open>f64_mul\<close>, \<open>f64_div\<close>, \<open>f64_sqrt\<close>). The loop
    body of the execution core is embedded at this level (\<open>backtest_step_f64\<close>), and
    so are the performance statistics (win rate, drawdown, Sharpe ratio) and what the
    signal generators compute from the columns of the frame. The theorems about what
    one bar does and about the statistics are stated at this level.
  \<^item> Exact reals, for the run as a whole (\<open>backtest_loop\<close>, \<open>execute_backtest\<close>) and
    for the buy-and-hold baseline. The theorems at this level are invariants of the
    ledger and of its cash flows, and worked scenarios.

  The doubles of the model are the finite ones: an operation whose result exceeds the
  largest double is outside the model. A float that is NaN in the source (a NULL
  indicator, a rolling statistic without enough history, the deviation of fewer than
  two numbers) is \<open>None\<close> of an option type. Where pandas divides by zero the result
  is an infinity or NaN of the type \<open>quotient\<close>; where Python divides a float by
  zero it raises. Python's floor division of two floats is the floor of their exact
  quotient (it is computed from the exact remainder), for quotients below \<open>2 ^ 50\<close>;
  beyond that it is rounded itself. The sum of a series is taken in the order of the
  series, which is numpy's order for fewer than eight entries (and the order of
  bottleneck, where pandas has it, for any number). The rolling means and rolling
  deviations of the signal generators, which pandas updates incrementally, and what
  is computed from them are exact.
\<close>

subsection \<open>Double-precision arithmetic\<close>

text \<open>
  A double is \<open>m * 2 ^ k\<close> for integers \<open>\<bar>m\<bar> < 2 ^ 53\<close> and \<open>- 1074 \<le> k\<close>. Around a
  real \<open>x\<close> with \<open>2 ^ e \<le> \<bar>x\<bar> < 2 ^ (e + 1)\<close> the doubles are the multiples of
  \<open>2 ^ (e - 52)\<close>, and the multiples of \<open>2 ^ (- 1074)\<close> below \<open>2 ^ (- 1022)\<close>;
  \<open>grid_exponent x\<close> is the exponent of that spacing, read off the bit length of
  \<open>\<bar>x\<bar>\<close> scaled by \<open>2 ^ 1074\<close>. \<open>round_double x\<close> is the multiple nearest to \<open>x\<close>,
  the even one of two that are equally near.
\<close>

definition round_half_even :: "real \<Rightarrow> int" where
  "round_half_even r =
     (let f = \<lfloor>r\<rfloor>; d = r - of_int f
      in if d < 1 / 2 then f
         else if 1 / 2 < d then f + 1
         else if even f then f else f + 1)"

definition grid_exponent :: "real \<Rightarrow> int" where
  "grid_exponent x = max (bitlen \<lfloor>\<bar>x\<bar> * 2 ^ 1074\<rfloor> - 53) 0 - 1074"

definition round_double :: "real \<Rightarrow> real" where
  "round_double x =
     (let u = 2 powi grid_exponent x in of_int (round_half_even (x / u)) * u)"

text \<open>
  The operations of Python on floats: the exact result, rounded. A decimal literal of
  the source such as \<^verbatim>\<open>0.05\<close> is \<open>round_double (5 / 100)\<close>, and
  \<^verbatim>\<open>position * current_price\<close> converts the integer first.
\<close>

definition f64_add :: "real \<Rightarrow> real \<Rightarrow> real" where
  "f64_add x y = round_double (x + y)"

definition f64_sub :: "real \<Rightarrow> real \<Rightarrow> real" where
  "f64_sub x y = round_double (x - y)"

definition f64_mul :: "real \<Rightarrow> real \<Rightarrow> real" where
  "f64_mul x y = round_double (x * y)"

definition f64_div :: "real \<Rightarrow> real \<Rightarrow> real" where
  "f64_div x y = round_double (x / y)"

definition f64_sqrt :: "real \<Rightarrow> real" where
  "f64_sqrt x = round_double (sqrt x)"

definition f64_of_int :: "int \<Rightarrow> real" where
  "f64_of_int n = round_double (of_int n)"

subsection \<open>Data model\<close>

datatype py_error = ValueError string | KeyError string | ZeroDivisionError | IndexError

record Trade =
  timestamp :: int
  action :: string
  price :: real
  quantity :: int
  reason :: string
  transaction_cost :: real

text \<open>
  The result object. A float that need not be a finite number (a quotient whose
  divisor can be zero) is an option: \<open>None\<close> is NaN or an infinity. The dates are
  the request's dates, passed through.
\<close>

record BacktestResult =
  ticker :: string
  start_date :: int
  end_date :: int
  initial_capital :: real
  final_capital :: real
  total_return_pct :: real
  buy_hold_return_pct :: "real option"
  alpha :: "real option"
  total_trades :: nat
  winning_trades :: nat
  losing_trades :: nat
  win_rate :: real
  max_drawdown :: "real option"
  sharpe_ratio :: "real option"
  total_transaction_cost :: real
  trades :: "Trade list"

record BacktestConfig =
  transaction_cost_rate :: real
  max_position_ratio :: real
  stop_loss_ratio :: real
  risk_free_rate :: real

text \<open>
  The defaults of the dataclass \<^verbatim>\<open>BacktestConfig\<close>: the doubles of the literals
  \<^verbatim>\<open>0.0015\<close>, \<^verbatim>\<open>0.95\<close>, \<^verbatim>\<open>0.05\<close> and \<^verbatim>\<open>0.03\<close>.
\<close>

definition default_config :: BacktestConfig where
  "default_config =
     \<lparr>transaction_cost_rate = round_double (15 / 10000),
      max_position_ratio = round_double (95 / 100),
      stop_loss_ratio = round_double (5 / 100),
      risk_free_rate = round_double (3 / 100)\<rparr>"

text \<open>
  One row of the frame that \<^verbatim>\<open>_merge_backtest_data\<close> builds: the candle (the table
  \<^verbatim>\<open>candles_raw\<close> has no NULL price), the indicators and the summary level joined on
  the timestamp. \<open>None\<close> is NaN, or a column the frame does not have when the
  indicator or summary table was empty (\<^verbatim>\<open>row.get\<close> gives \<^verbatim>\<open>None\<close> there, and
  \<^verbatim>\<open>pd.notna\<close> is false for both).
\<close>

record merged_row =
  ts :: int
  open_price :: real
  high :: real
  low :: real
  close :: real
  volume :: real
  rsi14 :: "real option"
  macd :: "real option"
  macd_signal :: "real option"
  stoch_k :: "real option"
  cci14 :: "real option"
  roc :: "real option"
  level :: "string option"

text \<open>
  A row after signal generation: the column \<^verbatim>\<open>signal\<close>, and the column
  \<^verbatim>\<open>position_size\<close> that only \<^verbatim>\<open>_generate_position_sizing_signals\<close> adds
  (\<open>None\<close>: the frame has no such column).
\<close>

record signal_row = merged_row +
  signal :: string
  position_size :: "real option"

subsection \<open>The execution core: \<^verbatim>\<open>_execute_backtest\<close>\<close>

text \<open>
  The local variables of the simulation loop. The loop is embedded twice: here with
  exact arithmetic, and in the next subsection, branch for branch, with the
  operations of doubles.
\<close>

record sim =
  capital :: real
  position :: int
  entry_price :: real
  trades :: "Trade list"
  portfolio_values :: "real list"
  total_transaction_cost :: real

definition initial_sim :: "real \<Rightarrow> sim" where
  "initial_sim capital0 =
     \<lparr>capital = capital0, position = 0, entry_price = 0, trades = [],
      portfolio_values = [], total_transaction_cost = 0\<rparr>"

text \<open>The last two statements of the loop body: the value of the portfolio at this bar.\<close>

definition record_value :: "real \<Rightarrow> sim \<Rightarrow> sim" where
  "record_value current_price s =
     s\<lparr>portfolio_values :=
         portfolio_values s @ [capital s + of_int (position s) * current_price]\<rparr>"

text \<open>
  The stop-loss test at the head of the loop body, with the exact product as the
  threshold; the program's test, on the rounded product, is \<open>stop_loss_hit_f64\<close>.
\<close>

definition stop_loss_hit :: "BacktestConfig \<Rightarrow> sim \<Rightarrow> real \<Rightarrow> bool" where
  "stop_loss_hit cfg s current_price \<longleftrightarrow>
     0 < position s \<and> current_price \<le> entry_price s * (1 - stop_loss_ratio cfg)"

text \<open>
  The branch \<^verbatim>\<open>signal == "BUY" and position == 0\<close>. The rows are Python floats
  (the frame has a string column, so \<^verbatim>\<open>iterrows\<close> yields object rows), and
  \<^verbatim>\<open>max_investment // current_price\<close> raises \<^verbatim>\<open>ZeroDivisionError\<close> at price 0.
  Here the amounts are exact; the quantity and the amounts that the program computes
  are those of \<open>buy_branch_f64\<close>.
\<close>

definition buy_branch ::
  "BacktestConfig \<Rightarrow> sim \<Rightarrow> int \<Rightarrow> real \<Rightarrow> string \<Rightarrow> py_error + sim" where
  "buy_branch cfg s tstamp current_price why =
     (if current_price = 0 then Inl ZeroDivisionError
      else
        let max_investment = capital s * max_position_ratio cfg;
            qty = \<lfloor>max_investment / current_price\<rfloor>
        in if 0 < qty then
             let gross_cost = of_int qty * current_price;
                 cost = gross_cost * transaction_cost_rate cfg;
                 total_cost = gross_cost + cost
             in if total_cost \<le> capital s then
                  Inr (s\<lparr>capital := capital s - total_cost,
                         position := qty,
                         entry_price := current_price,
                         total_transaction_cost := total_transaction_cost s + cost,
                         trades := trades s @
                           [\<lparr>timestamp = tstamp, action = ''BUY'', price = current_price,
                             quantity = qty, reason = why, transaction_cost = cost\<rparr>]\<rparr>)
                else Inr s
           else Inr s)"

text \<open>The branch \<^verbatim>\<open>signal == "SELL" and position > 0\<close>.\<close>

definition sell_branch :: "BacktestConfig \<Rightarrow> sim \<Rightarrow> int \<Rightarrow> real \<Rightarrow> string \<Rightarrow> sim" where
  "sell_branch cfg s tstamp current_price why =
     (let gross_revenue = of_int (position s) * current_price;
          cost = gross_revenue * transaction_cost_rate cfg;
          net_revenue = gross_revenue - cost
      in s\<lparr>capital := capital s + net_revenue,
            total_transaction_cost := total_transaction_cost s + cost,
            trades := trades s @
              [\<lparr>timestamp = tstamp, action = ''SELL'', price = current_price,
                quantity = position s, reason = why, transaction_cost = cost\<rparr>],
            position := 0,
            entry_price := 0\<rparr>)"

text \<open>One pass through the loop body.\<close>

definition backtest_step :: "BacktestConfig \<Rightarrow> sim \<Rightarrow> signal_row \<Rightarrow> py_error + sim" where
  "backtest_step cfg s row =
     (let current_price = close row;
          hit = stop_loss_hit cfg s current_price;
          sig = (if hit then ''SELL'' else signal row);
          why = (if hit then ''STOP_LOSS'' else signal row)
      in if sig = ''BUY'' \<and> position s = 0 then
           (case buy_branch cfg s (ts row) current_price why of
              Inl e \<Rightarrow> Inl e
            | Inr s' \<Rightarrow> Inr (record_value current_price s'))
         else if sig = ''SELL'' \<and> 0 < position s then
           Inr (record_value current_price (sell_branch cfg s (ts row) current_price why))
         else Inr (record_value current_price s))"

fun backtest_loop :: "BacktestConfig \<Rightarrow> sim \<Rightarrow> signal_row list \<Rightarrow> py_error + sim" where
  "backtest_loop cfg s [] = Inr s"
| "backtest_loop cfg s (row # rows) =
     (case backtest_step cfg s row of
        Inl e \<Rightarrow> Inl e
      | Inr s' \<Rightarrow> backtest_loop cfg s' rows)"

text \<open>
  The block after the loop: an open position is sold at the last close, tagged
  \<^verbatim>\<open>FINAL_SELL\<close>. The block appends the trade and adds the revenue; it does not
  assign \<^verbatim>\<open>position\<close>, which the code never reads again.
\<close>

definition final_liquidation ::
  "BacktestConfig \<Rightarrow> signal_row list \<Rightarrow> sim \<Rightarrow> py_error + sim" where
  "final_liquidation cfg df s =
     (if 0 < position s then
        (if df = [] then Inl IndexError
         else
           let final_price = close (last df);
               gross_revenue = of_int (position s) * final_price;
               cost = gross_revenue * transaction_cost_rate cfg;
               net_revenue = gross_revenue - cost
           in Inr (s\<lparr>capital := capital s + net_revenue,
                     total_transaction_cost := total_transaction_cost s + cost,
                     trades := trades s @
                       [\<lparr>timestamp = ts (last df), action = ''SELL'', price = final_price,
                         quantity = position s, reason = ''FINAL_SELL'',
                         transaction_cost = cost\<rparr>]\<rparr>))
      else Inr s)"

subsection \<open>The loop body in double precision\<close>

text \<open>
  The same statements with every \<^verbatim>\<open>+\<close>, \<^verbatim>\<open>-\<close> and \<^verbatim>\<open>*\<close> of the source
  rounded. \<^verbatim>\<open>portfolio_value = capital + position * current_price\<close>.
\<close>

definition record_value_f64 :: "real \<Rightarrow> sim \<Rightarrow> sim" where
  "record_value_f64 current_price s =
     s\<lparr>portfolio_values :=
         portfolio_values s @
           [f64_add (capital s) (f64_mul (f64_of_int (position s)) current_price)]\<rparr>"

text \<open>
  \<^verbatim>\<open>position > 0 and current_price <= entry_price * (1 - self.config.stop_loss_ratio)\<close>:
  the close is compared with the rounded product of the entry price and the rounded
  difference.
\<close>

definition stop_loss_hit_f64 :: "BacktestConfig \<Rightarrow> sim \<Rightarrow> real \<Rightarrow> bool" where
  "stop_loss_hit_f64 cfg s current_price \<longleftrightarrow>
     0 < position s \<and>
     current_price \<le> f64_mul (entry_price s) (f64_sub 1 (stop_loss_ratio cfg))"

text \<open>
  The branch \<^verbatim>\<open>signal == "BUY" and position == 0\<close>.
  \<^verbatim>\<open>max_investment = capital * self.config.max_position_ratio\<close> is rounded, and
  \<^verbatim>\<open>int(max_investment // current_price)\<close> is the floor of the quotient of that
  double by the price (for a quotient below \<open>2 ^ 50\<close>).
\<close>

definition buy_branch_f64 ::
  "BacktestConfig \<Rightarrow> sim \<Rightarrow> int \<Rightarrow> real \<Rightarrow> string \<Rightarrow> py_error + sim" where
  "buy_branch_f64 cfg s tstamp current_price why =
     (if current_price = 0 then Inl ZeroDivisionError
      else
        let max_investment = f64_mul (capital s) (max_position_ratio cfg);
            qty = \<lfloor>max_investment / current_price\<rfloor>
        in if 0 < qty then
             let gross_cost = f64_mul (f64_of_int qty) current_price;
                 cost = f64_mul gross_cost (transaction_cost_rate cfg);
                 total_cost = f64_add gross_cost cost
             in if total_cost \<le> capital s then
                  Inr (s\<lparr>capital := f64_sub (capital s) total_cost,
                         position := qty,
                         entry_price := current_price,
                         total_transaction_cost := f64_add (total_transaction_cost s) cost,
                         trades := trades s @
                           [\<lparr>timestamp = tstamp, action = ''BUY'', price = current_price,
                             quantity = qty, reason = why, transaction_cost = cost\<rparr>]\<rparr>)
                else Inr s
           else Inr s)"

text \<open>The branch \<^verbatim>\<open>signal == "SELL" and position > 0\<close>.\<close>

definition sell_branch_f64 :: "BacktestConfig \<Rightarrow> sim \<Rightarrow> int \<Rightarrow> real \<Rightarrow> string \<Rightarrow> sim" where
  "sell_branch_f64 cfg s tstamp current_price why =
     (let gross_revenue = f64_mul (f64_of_int (position s)) current_price;
          cost = f64_mul gross_revenue (transaction_cost_rate cfg);
          net_revenue = f64_sub gross_revenue cost
      in s\<lparr>capital := f64_add (capital s) net_revenue,
            total_transaction_cost := f64_add (total_transaction_cost s) cost,
            trades := trades s @
              [\<lparr>timestamp = tstamp, action = ''SELL'', price = current_price,
                quantity = position s, reason = why, transaction_cost = cost\<rparr>],
            position := 0,
            entry_price := 0\<rparr>)"

definition backtest_step_f64 :: "BacktestConfig \<Rightarrow> sim \<Rightarrow> signal_row \<Rightarrow> py_error + sim" where
  "backtest_step_f64 cfg s row =
     (let current_price = close row;
          hit = stop_loss_hit_f64 cfg s current_price;
          sig = (if hit then ''SELL'' else signal row);
          why = (if hit then ''STOP_LOSS'' else signal row)
      in if sig = ''BUY'' \<and> position s = 0 then
           (case buy_branch_f64 cfg s (ts row) current_price why of
              Inl e \<Rightarrow> Inl e
            | Inr s' \<Rightarrow> Inr (record_value_f64 current_price s'))
         else if sig = ''SELL'' \<and> 0 < position s then
           Inr (record_value_f64 current_price
                  (sell_branch_f64 cfg s (ts row) current_price why))
         else Inr (record_value_f64 current_price s))"

fun backtest_loop_f64 :: "BacktestConfig \<Rightarrow> sim \<Rightarrow> signal_row list \<Rightarrow> py_error + sim" where
  "backtest_loop_f64 cfg s [] = Inr s"
| "backtest_loop_f64 cfg s (row # rows) =
     (case backtest_step_f64 cfg s row of
        Inl e \<Rightarrow> Inl e
      | Inr s' \<Rightarrow> backtest_loop_f64 cfg s' rows)"

subsection \<open>The performance evaluator\<close>

text \<open>
  \<^verbatim>\<open>_calculate_win_loss_trades\<close>: buys wait in a queue, each sell closes the oldest
  one; the pair wins when the net revenue exceeds the buy's cost.
\<close>

fun win_loss_loop :: "Trade list \<Rightarrow> Trade list \<Rightarrow> nat \<times> nat \<Rightarrow> nat \<times> nat" where
  "win_loss_loop [] buy_stack (w, l) = (w, l)"
| "win_loss_loop (t # rest) buy_stack (w, l) =
     (if action t = ''BUY'' then win_loss_loop rest (buy_stack @ [t]) (w, l)
      else if action t = ''SELL'' \<and> buy_stack \<noteq> [] then
        (let buy_trade = hd buy_stack;
             buy_cost = f64_add (f64_mul (price buy_trade) (f64_of_int (quantity buy_trade)))
                          (transaction_cost buy_trade);
             sell_revenue = f64_sub (f64_mul (price t) (f64_of_int (quantity t)))
                              (transaction_cost t)
         in if buy_cost < sell_revenue
            then win_loss_loop rest (tl buy_stack) (w + 1, l)
            else win_loss_loop rest (tl buy_stack) (w, l + 1))
      else win_loss_loop rest buy_stack (w, l))"

definition calculate_win_loss_trades :: "Trade list \<Rightarrow> nat \<times> nat" where
  "calculate_win_loss_trades tr = win_loss_loop tr [] (0, 0)"

text \<open>
  The expression for \<^verbatim>\<open>win_rate\<close> in \<^verbatim>\<open>_execute_backtest\<close>: the quotient of two
  integers, rounded, times 100.
\<close>

definition win_rate_of :: "nat \<Rightarrow> nat \<Rightarrow> real" where
  "win_rate_of winning losing =
     f64_mul (f64_div (real winning) (real (max 1 (winning + losing)))) 100"

text \<open>
  Quotients of pandas series: division by zero gives an infinity or NaN there, it
  does not raise.
\<close>

datatype quotient = Finite real | PosInf | NegInf | NotANumber

fun finite_values :: "quotient list \<Rightarrow> real list" where
  "finite_values [] = []"
| "finite_values (Finite x # qs) = x # finite_values qs"
| "finite_values (q # qs) = finite_values qs"

definition dropna :: "quotient list \<Rightarrow> quotient list" where
  "dropna qs = filter (\<lambda>q. q \<noteq> NotANumber) qs"

text \<open>
  \<^verbatim>\<open>Series.pct_change()\<close> is \<^verbatim>\<open>data / data.shift(1) - 1\<close>: NaN first, then the
  rounded quotient less 1, rounded.
\<close>

definition float_div_f64 :: "real \<Rightarrow> real \<Rightarrow> quotient" where
  "float_div_f64 x y =
     (if y \<noteq> 0 then Finite (f64_div x y)
      else if x = 0 then NotANumber
      else if 0 < x then PosInf else NegInf)"

fun minus_one_f64 :: "quotient \<Rightarrow> quotient" where
  "minus_one_f64 (Finite x) = Finite (f64_sub x 1)"
| "minus_one_f64 q = q"

fun pct_from_f64 :: "real \<Rightarrow> real list \<Rightarrow> quotient list" where
  "pct_from_f64 prev [] = []"
| "pct_from_f64 prev (v # vs) = minus_one_f64 (float_div_f64 v prev) # pct_from_f64 v vs"

definition pct_change_f64 :: "real list \<Rightarrow> quotient list" where
  "pct_change_f64 vs = (case vs of [] \<Rightarrow> [] | v # rest \<Rightarrow> NotANumber # pct_from_f64 v rest)"

text \<open>\<^verbatim>\<open>Series.sum()\<close> and \<^verbatim>\<open>Series.mean()\<close>: the running sum, then one division.\<close>

definition sum_f64 :: "real list \<Rightarrow> real" where
  "sum_f64 xs = foldl f64_add 0 xs"

definition mean_f64 :: "real list \<Rightarrow> real" where
  "mean_f64 xs = f64_div (sum_f64 xs) (real (length xs))"

text \<open>
  \<^verbatim>\<open>Series.std()\<close> (\<^verbatim>\<open>ddof=1\<close>) in the two passes of pandas: the mean, the sum of
  the squares \<^verbatim>\<open>(avg - values) ** 2\<close> divided by \<open>n - 1\<close>, the square root. NaN below
  two observations, and NaN when an infinity is in the series.
\<close>

definition sample_std_f64 :: "real list \<Rightarrow> real option" where
  "sample_std_f64 xs =
     (if length xs < 2 then None
      else
        let avg = mean_f64 xs;
            sqr = map (\<lambda>x. f64_mul (f64_sub avg x) (f64_sub avg x)) xs
        in Some (f64_sqrt (f64_div (sum_f64 sqr) (real (length xs - 1)))))"

definition series_std_f64 :: "quotient list \<Rightarrow> real option" where
  "series_std_f64 qs =
     (if PosInf \<in> set qs \<or> NegInf \<in> set qs then None
      else sample_std_f64 (finite_values qs))"

text \<open>
  \<^verbatim>\<open>_calculate_sharpe_ratio\<close>. When the deviation is NaN the test
  \<^verbatim>\<open>returns.std() == 0\<close> is false and the quotient returned is NaN.
\<close>

definition calculate_sharpe_ratio :: "BacktestConfig \<Rightarrow> real list \<Rightarrow> real option" where
  "calculate_sharpe_ratio cfg pv =
     (if length pv < 2 then Some 0
      else
        let returns = dropna (pct_change_f64 pv) in
        case series_std_f64 returns of
          None \<Rightarrow> None
        | Some sd \<Rightarrow>
            if sd = 0 then Some 0
            else
              let daily_risk_free_rate = f64_div (risk_free_rate cfg) 252;
                  excess_returns =
                    map (\<lambda>r. f64_sub r daily_risk_free_rate) (finite_values returns)
              in Some (f64_mul (f64_div (mean_f64 excess_returns) sd) (f64_sqrt 252)))"

text \<open>
  The same statistics of exact returns, \<open>v\<^sub>i / v\<^sub>i\<^sub>-\<^sub>1 - 1\<close> without rounding: the
  deviation that a series of returns has, as opposed to the one the program computes.
  The rolling deviation of the signal generators is taken with them.
\<close>

definition float_div :: "real \<Rightarrow> real \<Rightarrow> quotient" where
  "float_div x y =
     (if y \<noteq> 0 then Finite (x / y)
      else if x = 0 then NotANumber
      else if 0 < x then PosInf else NegInf)"

fun shift_quotient :: "real \<Rightarrow> quotient \<Rightarrow> quotient" where
  "shift_quotient d (Finite x) = Finite (x + d)"
| "shift_quotient d q = q"

fun pct_from :: "real \<Rightarrow> real list \<Rightarrow> quotient list" where
  "pct_from prev [] = []"
| "pct_from prev (v # vs) = shift_quotient (- 1) (float_div v prev) # pct_from v vs"

definition pct_change :: "real list \<Rightarrow> quotient list" where
  "pct_change vs = (case vs of [] \<Rightarrow> [] | v # rest \<Rightarrow> NotANumber # pct_from v rest)"

definition mean :: "real list \<Rightarrow> real" where
  "mean xs = sum_list xs / real (length xs)"

definition sample_std :: "real list \<Rightarrow> real option" where
  "sample_std xs =
     (if length xs < 2 then None
      else Some (sqrt (sum_list (map (\<lambda>x. (x - mean xs)\<^sup>2) xs) / real (length xs - 1))))"

definition series_std :: "quotient list \<Rightarrow> real option" where
  "series_std qs =
     (if PosInf \<in> set qs \<or> NegInf \<in> set qs then None else sample_std (finite_values qs))"

text \<open>\<^verbatim>\<open>Series.cummax()\<close>.\<close>

fun cummax_from :: "real \<Rightarrow> real list \<Rightarrow> real list" where
  "cummax_from m [] = []"
| "cummax_from m (v # vs) = max m v # cummax_from (max m v) vs"

definition cummax :: "real list \<Rightarrow> real list" where
  "cummax vs = (case vs of [] \<Rightarrow> [] | v # rest \<Rightarrow> v # cummax_from v rest)"

text \<open>
  \<^verbatim>\<open>Series.min()\<close>, which skips NaN: NaN for a series of NaN only, an infinity
  when the least entry is one.
\<close>

definition series_min :: "quotient list \<Rightarrow> real option" where
  "series_min qs =
     (if NegInf \<in> set qs then None
      else case finite_values qs of
             [] \<Rightarrow> None
           | x # xs \<Rightarrow> Some (fold min xs x))"

definition calculate_max_drawdown :: "real list \<Rightarrow> real option" where
  "calculate_max_drawdown pv =
     (if pv = [] then Some 0
      else
        let drawdown = map2 (\<lambda>v m. float_div_f64 (f64_sub v m) m) pv (cummax pv)
        in map_option (\<lambda>d. f64_mul d 100) (series_min drawdown))"

text \<open>
  \<^verbatim>\<open>_calculate_buy_hold_return\<close>. \<^verbatim>\<open>shares\<close> is the float
  \<^verbatim>\<open>available_capital // start_price\<close>. A first close of 0 cannot come out of
  \<^verbatim>\<open>_validate_data\<close>; numpy's floor division by zero is not a finite number.
\<close>

definition buy_hold_shares :: "BacktestConfig \<Rightarrow> real \<Rightarrow> real \<Rightarrow> int" where
  "buy_hold_shares cfg capital0 start_price =
     (let cost = capital0 * transaction_cost_rate cfg;
          available_capital = capital0 - cost
      in \<lfloor>available_capital / start_price\<rfloor>)"

definition calculate_buy_hold_return ::
  "BacktestConfig \<Rightarrow> signal_row list \<Rightarrow> real \<Rightarrow> real option" where
  "calculate_buy_hold_return cfg df capital0 =
     (if df = [] then Some 0
      else
        let start_price = close (hd df);
            end_price = close (last df)
        in if start_price = 0 then None
           else
             let shares = buy_hold_shares cfg capital0 start_price
             in if shares \<le> 0 then Some 0
                else
                  let final_value = of_int shares * end_price;
                      final_transaction_cost = final_value * transaction_cost_rate cfg;
                      final_cap = final_value - final_transaction_cost
                  in Some ((final_cap - capital0) / capital0 * 100))"

subsection \<open>The result of a run\<close>

definition count_action :: "string \<Rightarrow> Trade list \<Rightarrow> nat" where
  "count_action a tr = length (filter (\<lambda>t. action t = a) tr)"

text \<open>
  \<^verbatim>\<open>_execute_backtest\<close>: the loop, the final liquidation, then the statistics. With
  an initial capital of 0 nothing is ever bought, and the division in
  \<^verbatim>\<open>total_return_pct\<close> raises.
\<close>

definition execute_backtest ::
  "BacktestConfig \<Rightarrow> signal_row list \<Rightarrow> string \<Rightarrow> real \<Rightarrow> int \<Rightarrow> int
     \<Rightarrow> py_error + BacktestResult" where
  "execute_backtest cfg df tick capital0 sdate edate =
     (case backtest_loop cfg (initial_sim capital0) df of
        Inl e \<Rightarrow> Inl e
      | Inr s1 \<Rightarrow>
          (case final_liquidation cfg df s1 of
             Inl e \<Rightarrow> Inl e
           | Inr s \<Rightarrow>
               if capital0 = 0 then Inl ZeroDivisionError
               else
                 let ret = (capital s - capital0) / capital0 * 100;
                     bh = calculate_buy_hold_return cfg df capital0;
                     wl = calculate_win_loss_trades (trades s)
                 in Inr \<lparr>ticker = tick, start_date = sdate, end_date = edate,
                         initial_capital = capital0,
                         final_capital = capital s,
                         total_return_pct = ret,
                         buy_hold_return_pct = bh,
                         alpha = map_option (\<lambda>b. ret - b) bh,
                         total_trades =
                           min (count_action ''BUY'' (trades s))
                               (count_action ''SELL'' (trades s)),
                         winning_trades = fst wl,
                         losing_trades = snd wl,
                         win_rate = win_rate_of (fst wl) (snd wl),
                         max_drawdown = calculate_max_drawdown (portfolio_values s),
                         sharpe_ratio = calculate_sharpe_ratio cfg (portfolio_values s),
                         BacktestResult.total_transaction_cost = total_transaction_cost s,
                         BacktestResult.trades = trades s\<rparr>))"

subsection \<open>The tables and the merged frame\<close>

text \<open>
  The rows that \<^verbatim>\<open>_get_candles_data\<close>, \<^verbatim>\<open>_get_indicators_data\<close> and
  \<^verbatim>\<open>_get_summary_data\<close> read from the database; the queries themselves are outside
  the model. An indicator may be NULL, a level is not. The count columns of the
  summary, which nothing reads, are left out.
\<close>

record candle =
  candle_ts :: int
  candle_open :: real
  candle_high :: real
  candle_low :: real
  candle_close :: real
  candle_volume :: real

record indicator =
  indicator_ts :: int
  indicator_rsi14 :: "real option"
  indicator_macd :: "real option"
  indicator_macd_signal :: "real option"
  indicator_stoch_k :: "real option"
  indicator_cci14 :: "real option"
  indicator_roc :: "real option"

record summary =
  summary_ts :: int
  summary_level :: string

text \<open>
  A frame is its rows and the columns it has: \<^verbatim>\<open>_merge_backtest_data\<close> joins a
  table only when it is not empty, so a frame built without indicators has no
  column \<^verbatim>\<open>macd\<close> at all.
\<close>

record frame =
  frame_rows :: "merged_row list"
  indicator_columns :: bool
  summary_columns :: bool

text \<open>\<^verbatim>\<open>_validate_data\<close>: \<open>None\<close> when nothing is raised.\<close>

definition validate_data :: "candle list \<Rightarrow> string \<Rightarrow> py_error option" where
  "validate_data df tick =
     (if df = [] then Some (ValueError (''No candle data found for '' @ tick))
      else if list_ex (\<lambda>c. candle_open c \<le> 0) df
        then Some (ValueError ''Invalid price data detected in open'')
      else if list_ex (\<lambda>c. candle_high c \<le> 0) df
        then Some (ValueError ''Invalid price data detected in high'')
      else if list_ex (\<lambda>c. candle_low c \<le> 0) df
        then Some (ValueError ''Invalid price data detected in low'')
      else if list_ex (\<lambda>c. candle_close c \<le> 0) df
        then Some (ValueError ''Invalid price data detected in close'')
      else None)"

definition candle_row :: "candle \<Rightarrow> merged_row" where
  "candle_row c =
     \<lparr>ts = candle_ts c, open_price = candle_open c, high = candle_high c,
      low = candle_low c, close = candle_close c, volume = candle_volume c,
      rsi14 = None, macd = None, macd_signal = None, stoch_k = None, cci14 = None,
      roc = None, level = None\<rparr>"

definition with_indicator :: "merged_row \<Rightarrow> indicator \<Rightarrow> merged_row" where
  "with_indicator row i =
     row\<lparr>rsi14 := indicator_rsi14 i, macd := indicator_macd i,
         macd_signal := indicator_macd_signal i, stoch_k := indicator_stoch_k i,
         cci14 := indicator_cci14 i, roc := indicator_roc i\<rparr>"

definition with_summary :: "merged_row \<Rightarrow> summary \<Rightarrow> merged_row" where
  "with_summary row sm = row\<lparr>level := Some (summary_level sm)\<rparr>"

text \<open>
  \<^verbatim>\<open>left.join(right, how="left")\<close> on the timestamp index: every left row, once
  for each right row of its timestamp, or once with the right columns NaN.
\<close>

definition left_join ::
  "('r \<Rightarrow> int) \<Rightarrow> (merged_row \<Rightarrow> 'r \<Rightarrow> merged_row) \<Rightarrow> merged_row list \<Rightarrow> 'r list
     \<Rightarrow> merged_row list" where
  "left_join key put left right =
     concat (map (\<lambda>row.
       case filter (\<lambda>r. key r = ts row) right of
         [] \<Rightarrow> [row]
       | m # ms \<Rightarrow> map (put row) (m # ms)) left)"

text \<open>
  \<^verbatim>\<open>_merge_backtest_data\<close>. A candle has a close, so \<^verbatim>\<open>dropna(subset=["close"])\<close>
  drops nothing.
\<close>

definition merge_backtest_data :: "candle list \<Rightarrow> indicator list \<Rightarrow> summary list \<Rightarrow> frame" where
  "merge_backtest_data candles indicators summ =
     (let merged = map candle_row candles;
          merged1 = (if indicators \<noteq> [] then left_join indicator_ts with_indicator merged indicators
                     else merged);
          merged2 = (if summ \<noteq> [] then left_join summary_ts with_summary merged1 summ
                     else merged1)
      in \<lparr>frame_rows = merged2, indicator_columns = (indicators \<noteq> []),
          summary_columns = (summ \<noteq> [])\<rparr>)"

subsection \<open>The signal generators\<close>

text \<open>\<^verbatim>\<open>df["signal"] = signals\<close>, and \<^verbatim>\<open>df["position_size"]\<close> where it is set.\<close>

definition with_signal :: "merged_row \<Rightarrow> string \<Rightarrow> real option \<Rightarrow> signal_row" where
  "with_signal row sg psize =
     \<lparr>ts = ts row, open_price = open_price row, high = high row, low = low row,
      close = close row, volume = volume row, rsi14 = rsi14 row, macd = macd row,
      macd_signal = macd_signal row, stoch_k = stoch_k row, cci14 = cci14 row,
      roc = roc row, level = level row, signal = sg, position_size = psize\<rparr>"

definition set_signals :: "merged_row list \<Rightarrow> string list \<Rightarrow> signal_row list" where
  "set_signals rows signals = map2 (\<lambda>row sg. with_signal row sg None) rows signals"

text \<open>\<^verbatim>\<open>pd.notna(row.get("level")) and row["level"] in [...]\<close>.\<close>

definition level_in :: "merged_row \<Rightarrow> string list \<Rightarrow> bool" where
  "level_in row names = (case level row of None \<Rightarrow> False | Some l \<Rightarrow> l \<in> set names)"

text \<open>\<^verbatim>\<open>_generate_summary_signals\<close>.\<close>

definition summary_signal :: "merged_row \<Rightarrow> string" where
  "summary_signal row =
     (case level row of
        None \<Rightarrow> ''HOLD''
      | Some l \<Rightarrow>
          if l \<in> set [''STRONG_BUY'', ''BUY''] then ''BUY''
          else if l \<in> set [''STRONG_SELL'', ''SELL''] then ''SELL''
          else ''HOLD'')"

definition generate_summary_signals :: "frame \<Rightarrow> signal_row list" where
  "generate_summary_signals df =
     set_signals (frame_rows df) (map summary_signal (frame_rows df))"

text \<open>\<^verbatim>\<open>_generate_rsi_signals\<close>.\<close>

definition rsi_signal :: "merged_row \<Rightarrow> string" where
  "rsi_signal row =
     (case rsi14 row of
        None \<Rightarrow> ''HOLD''
      | Some r \<Rightarrow> if r < 30 then ''BUY'' else if 70 < r then ''SELL'' else ''HOLD'')"

definition generate_rsi_signals :: "frame \<Rightarrow> signal_row list" where
  "generate_rsi_signals df = set_signals (frame_rows df) (map rsi_signal (frame_rows df))"

text \<open>
  \<^verbatim>\<open>_generate_macd_signals\<close>. The function starts with
  \<^verbatim>\<open>df_copy["macd"] - df_copy["macd_signal"]\<close>, which raises \<^verbatim>\<open>KeyError\<close> on a
  frame without the indicator columns. \<open>prev\<close> is the shifted difference.
\<close>

definition macd_diff :: "merged_row \<Rightarrow> real option" where
  "macd_diff row =
     (case (macd row, macd_signal row) of
        (Some m, Some sg) \<Rightarrow> Some (f64_sub m sg)
      | _ \<Rightarrow> None)"

definition macd_signal_of :: "real option \<Rightarrow> real option \<Rightarrow> string" where
  "macd_signal_of prev cur =
     (case (cur, prev) of
        (Some d, Some p) \<Rightarrow>
          if p \<le> 0 \<and> 0 < d then ''BUY''
          else if 0 \<le> p \<and> d < 0 then ''SELL''
          else ''HOLD''
      | _ \<Rightarrow> ''HOLD'')"

fun macd_signals_from :: "real option \<Rightarrow> merged_row list \<Rightarrow> string list" where
  "macd_signals_from prev [] = []"
| "macd_signals_from prev (row # rows) =
     macd_signal_of prev (macd_diff row) # macd_signals_from (macd_diff row) rows"

definition generate_macd_signals :: "frame \<Rightarrow> py_error + signal_row list" where
  "generate_macd_signals df =
     (if \<not> indicator_columns df then Inl (KeyError ''macd'')
      else Inr (set_signals (frame_rows df) (macd_signals_from None (frame_rows df))))"

text \<open>
  Rolling statistics, taken exactly. \<^verbatim>\<open>rolling(window=w).mean()\<close> at row \<open>i\<close> is
  NaN until \<open>w\<close> rows are there. Over a series of quotients the window must hold
  finite numbers only; with validated closes a quotient is finite or the leading NaN.
\<close>

definition window :: "nat \<Rightarrow> 'a list \<Rightarrow> nat \<Rightarrow> 'a list" where
  "window w xs i = take w (drop (i + 1 - w) xs)"

definition rolling_mean :: "nat \<Rightarrow> real list \<Rightarrow> nat \<Rightarrow> real option" where
  "rolling_mean w xs i = (if w \<le> i + 1 then Some (mean (window w xs i)) else None)"

fun is_finite :: "quotient \<Rightarrow> bool" where
  "is_finite (Finite x) = True"
| "is_finite q = False"

definition rolling_mean_q :: "nat \<Rightarrow> quotient list \<Rightarrow> nat \<Rightarrow> real option" where
  "rolling_mean_q w qs i =
     (if w \<le> i + 1 \<and> list_all is_finite (window w qs i)
      then Some (mean (finite_values (window w qs i))) else None)"

definition rolling_std_q :: "nat \<Rightarrow> quotient list \<Rightarrow> nat \<Rightarrow> real option" where
  "rolling_std_q w qs i =
     (if w \<le> i + 1 \<and> list_all is_finite (window w qs i)
      then sample_std (finite_values (window w qs i)) else None)"

text \<open>\<^verbatim>\<open>pct_change(k)\<close> at row \<open>i\<close>.\<close>

definition pct_change_at :: "nat \<Rightarrow> real list \<Rightarrow> nat \<Rightarrow> quotient" where
  "pct_change_at k xs i =
     (if k \<le> i then minus_one_f64 (float_div_f64 (xs ! i) (xs ! (i - k))) else NotANumber)"

text \<open>\<^verbatim>\<open>pd.notna(q) and q > bound\<close>.\<close>

fun quotient_gt :: "quotient \<Rightarrow> real \<Rightarrow> bool" where
  "quotient_gt (Finite x) bound = (bound < x)"
| "quotient_gt PosInf bound = True"
| "quotient_gt q bound = False"

text \<open>The comparison \<^verbatim>\<open>a > b\<close> of two floats, false when either is NaN.\<close>

fun opt_gt :: "real option \<Rightarrow> real option \<Rightarrow> bool" where
  "opt_gt (Some a) (Some b) = (b < a)"
| "opt_gt a b = False"

text \<open>The base signal of the level: \<^verbatim>\<open>None\<close>, \<^verbatim>\<open>"BUY"\<close> or \<^verbatim>\<open>"SELL"\<close>.\<close>

definition base_signal :: "string \<Rightarrow> string option" where
  "base_signal l =
     (if l \<in> set [''STRONG_BUY'', ''BUY''] then Some ''BUY''
      else if l \<in> set [''STRONG_SELL'', ''SELL''] then Some ''SELL''
      else None)"

text \<open>
  \<^verbatim>\<open>_generate_trend_filtered_signals\<close>. The change over 20 rows is a rounded
  quotient less 1, and it is compared with the double of the literal \<^verbatim>\<open>0.10\<close>.
\<close>

definition trend_filtered_signal :: "real list \<Rightarrow> nat \<Rightarrow> merged_row \<Rightarrow> string" where
  "trend_filtered_signal closes i row =
     (let ma50 = rolling_mean 50 closes i;
          ma200 = rolling_mean 200 closes i;
          trend_strength = pct_change_at 20 closes i
      in case level row of
           None \<Rightarrow> ''HOLD''
         | Some l \<Rightarrow>
             (case base_signal l of
                None \<Rightarrow> ''HOLD''
              | Some b \<Rightarrow>
                  let is_uptrend = (opt_gt (Some (close row)) ma50 \<and> opt_gt ma50 ma200);
                      strong_uptrend = quotient_gt trend_strength (round_double (1 / 10))
                  in if b = ''BUY'' then ''BUY''
                     else if b = ''SELL'' then
                       (if \<not> (is_uptrend \<or> strong_uptrend) then ''SELL'' else ''HOLD'')
                     else ''HOLD''))"

definition generate_trend_filtered_signals :: "frame \<Rightarrow> signal_row list" where
  "generate_trend_filtered_signals df =
     (let rows = frame_rows df; closes = map close rows
      in set_signals rows (map (\<lambda>(i, row). trend_filtered_signal closes i row) (enumerate 0 rows)))"

text \<open>
  \<^verbatim>\<open>_generate_market_adaptive_signals\<close>. The column \<^verbatim>\<open>volatility\<close> that the
  function computes is not read by it.
\<close>

definition market_adaptive_signal :: "real list \<Rightarrow> nat \<Rightarrow> merged_row \<Rightarrow> string" where
  "market_adaptive_signal closes i row =
     (let ma20 = rolling_mean 20 closes i;
          ma50 = rolling_mean 50 closes i;
          ma200 = rolling_mean 200 closes i;
          trend_strength =
            (case ma50 of None \<Rightarrow> NotANumber | Some m \<Rightarrow> float_div (close row - m) m);
          is_strong_bull =
            (opt_gt (Some (close row)) ma20 \<and> opt_gt ma20 ma50 \<and>
             opt_gt ma50 ma200 \<and> quotient_gt trend_strength (15 / 100));
          is_bear_market = (opt_gt ma50 (Some (close row)) \<and> opt_gt ma200 ma50)
      in case level row of
           None \<Rightarrow> ''HOLD''
         | Some l \<Rightarrow>
             (case base_signal l of
                None \<Rightarrow> ''HOLD''
              | Some b \<Rightarrow>
                  if is_strong_bull then (if b = ''BUY'' then ''BUY'' else ''HOLD'')
                  else if is_bear_market then b
                  else if l \<in> set [''STRONG_BUY'', ''STRONG_SELL''] then b
                  else ''HOLD''))"

definition generate_market_adaptive_signals :: "frame \<Rightarrow> signal_row list" where
  "generate_market_adaptive_signals df =
     (let rows = frame_rows df; closes = map close rows
      in set_signals rows (map (\<lambda>(i, row). market_adaptive_signal closes i row) (enumerate 0 rows)))"

text \<open>
  \<^verbatim>\<open>_generate_low_frequency_signals\<close>. \<^verbatim>\<open>trend_up\<close> is false while a moving
  average is NaN; \<^verbatim>\<open>trend_change\<close> compares it with the row before and is true on
  the first row, whose shifted value is NaN. \<open>last_idx\<close> is \<^verbatim>\<open>last_trade_idx\<close>,
  \<open>None\<close> for minus infinity.
\<close>

definition trend_up :: "real list \<Rightarrow> nat \<Rightarrow> bool" where
  "trend_up closes i = opt_gt (rolling_mean 20 closes i) (rolling_mean 50 closes i)"

definition trend_change :: "real list \<Rightarrow> nat \<Rightarrow> bool" where
  "trend_change closes i = (i = 0 \<or> trend_up closes i \<noteq> trend_up closes (i - 1))"

definition low_frequency_signal :: "real list \<Rightarrow> nat \<Rightarrow> merged_row \<Rightarrow> string" where
  "low_frequency_signal closes i row =
     (if level_in row [''STRONG_BUY'', ''STRONG_SELL''] then
        (if trend_change closes i then
           (if level row = Some ''STRONG_BUY'' \<and> trend_up closes i then ''BUY''
            else if level row = Some ''STRONG_SELL'' \<and> \<not> trend_up closes i then ''SELL''
            else ''HOLD'')
         else ''HOLD'')
      else ''HOLD'')"

fun low_frequency_loop :: "real list \<Rightarrow> nat option \<Rightarrow> (nat \<times> merged_row) list \<Rightarrow> string list" where
  "low_frequency_loop closes last_idx [] = []"
| "low_frequency_loop closes last_idx ((i, row) # rest) =
     (if (case last_idx of None \<Rightarrow> False | Some j \<Rightarrow> i - j < 15)
      then ''HOLD'' # low_frequency_loop closes last_idx rest
      else
        let sg = low_frequency_signal closes i row
        in sg # low_frequency_loop closes (if sg = ''HOLD'' then last_idx else Some i) rest)"

definition generate_low_frequency_signals :: "frame \<Rightarrow> signal_row list" where
  "generate_low_frequency_signals df =
     (let rows = frame_rows df; closes = map close rows
      in set_signals rows (low_frequency_loop closes None (enumerate 0 rows)))"

text \<open>
  \<^verbatim>\<open>_generate_adx_filtered_signals\<close>. The true range of the first row is
  \<^verbatim>\<open>high - low\<close> (the other two entries are NaN and \<^verbatim>\<open>max(axis=1)\<close> skips them).
  The estimate is a quotient by the average true range, which can be 0.
\<close>

definition true_range :: "merged_row list \<Rightarrow> nat \<Rightarrow> real" where
  "true_range rows i =
     (let row = rows ! i; high_low = f64_sub (high row) (low row)
      in if i = 0 then high_low
         else
           let prev_close = close (rows ! (i - 1))
           in max (max high_low \<bar>f64_sub (high row) prev_close\<bar>)
                \<bar>f64_sub (low row) prev_close\<bar>)"

fun abs_quotient :: "quotient \<Rightarrow> quotient" where
  "abs_quotient (Finite x) = Finite \<bar>x\<bar>"
| "abs_quotient NotANumber = NotANumber"
| "abs_quotient q = PosInf"

fun scale_quotient :: "real \<Rightarrow> quotient \<Rightarrow> quotient" where
  "scale_quotient k (Finite x) = Finite (x * k)"
| "scale_quotient k NotANumber = NotANumber"
| "scale_quotient k PosInf = (if 0 < k then PosInf else if k < 0 then NegInf else NotANumber)"
| "scale_quotient k NegInf = (if 0 < k then NegInf else if k < 0 then PosInf else NotANumber)"

definition adx_estimate :: "merged_row list \<Rightarrow> nat \<Rightarrow> quotient" where
  "adx_estimate rows i =
     (let closes = map close rows;
          tr = map (true_range rows) [0..<length rows];
          atr14 = rolling_mean 14 tr i;
          price_change = map abs_quotient (pct_change_f64 closes)
      in case (rolling_mean_q 14 price_change i, atr14) of
           (Some change, Some atr) \<Rightarrow>
             scale_quotient 100 (scale_quotient (close (rows ! i)) (float_div change atr))
         | _ \<Rightarrow> NotANumber)"

definition adx_filtered_signal :: "merged_row list \<Rightarrow> nat \<Rightarrow> merged_row \<Rightarrow> string" where
  "adx_filtered_signal rows i row =
     (if quotient_gt (adx_estimate rows i) 25 then
        (case level row of
           None \<Rightarrow> ''HOLD''
         | Some l \<Rightarrow>
             if l \<in> set [''STRONG_BUY'', ''BUY''] then ''BUY''
             else if l \<in> set [''STRONG_SELL'', ''SELL''] then ''SELL''
             else ''HOLD'')
      else ''HOLD'')"

definition generate_adx_filtered_signals :: "frame \<Rightarrow> signal_row list" where
  "generate_adx_filtered_signals df =
     (let rows = frame_rows df
      in set_signals rows (map (\<lambda>(i, row). adx_filtered_signal rows i row) (enumerate 0 rows)))"

text \<open>
  \<^verbatim>\<open>_generate_momentum_reversal_signals\<close>. The defaults of \<^verbatim>\<open>row.get\<close> for a
  missing column (50, 50, 0) are in neither extreme, as NaN is.
\<close>

fun opt_lt_num :: "real option \<Rightarrow> real \<Rightarrow> bool" where
  "opt_lt_num (Some a) b = (a < b)"
| "opt_lt_num None b = False"

fun opt_gt_num :: "real option \<Rightarrow> real \<Rightarrow> bool" where
  "opt_gt_num (Some a) b = (b < a)"
| "opt_gt_num None b = False"

definition momentum_reversal_signal :: "merged_row \<Rightarrow> string" where
  "momentum_reversal_signal row =
     (let extreme_oversold =
            (opt_lt_num (rsi14 row) 25 \<and> opt_lt_num (stoch_k row) 20 \<and>
             opt_lt_num (cci14 row) (- 150));
          extreme_overbought =
            (opt_gt_num (rsi14 row) 75 \<and> opt_gt_num (stoch_k row) 80 \<and>
             opt_gt_num (cci14 row) 150)
      in if extreme_oversold then ''BUY''
         else if extreme_overbought then ''SELL''
         else ''HOLD'')"

definition generate_momentum_reversal_signals :: "frame \<Rightarrow> signal_row list" where
  "generate_momentum_reversal_signals df =
     set_signals (frame_rows df) (map momentum_reversal_signal (frame_rows df))"

text \<open>
  \<^verbatim>\<open>_generate_position_sizing_signals\<close>. The volatility is the rolling deviation of
  the daily changes. Python's \<^verbatim>\<open>max(nan, 0.01)\<close> is NaN and \<^verbatim>\<open>min(1.0, nan)\<close>
  is 1.0, so the base position is 1 while the volatility is NaN.
\<close>

definition base_position :: "real option \<Rightarrow> real" where
  "base_position volatility =
     (case volatility of
        None \<Rightarrow> 1
      | Some v \<Rightarrow> min 1 ((2 / 100) / max v (1 / 100)))"

definition position_sizing_row :: "real list \<Rightarrow> nat \<Rightarrow> merged_row \<Rightarrow> string \<times> real" where
  "position_sizing_row closes i row =
     (case level row of
        None \<Rightarrow> (''HOLD'', 1)
      | Some l \<Rightarrow>
          let volatility = rolling_std_q 20 (pct_change_f64 closes) i;
              base = base_position volatility
          in if l = ''STRONG_BUY'' then (''BUY'', base * 1)
             else if l = ''BUY'' then (''BUY'', base * (6 / 10))
             else if l = ''STRONG_SELL'' then (''SELL'', base * 1)
             else if l = ''SELL'' then (''SELL'', base * (6 / 10))
             else (''HOLD'', 1))"

definition generate_position_sizing_signals :: "frame \<Rightarrow> signal_row list" where
  "generate_position_sizing_signals df =
     (let rows = frame_rows df; closes = map close rows
      in map (\<lambda>(i, row).
               case position_sizing_row closes i row of
                 (sg, psize) \<Rightarrow> with_signal row sg (Some psize))
           (enumerate 0 rows))"

text \<open>\<^verbatim>\<open>_generate_buy_hold_first_signals\<close>; \<open>held\<close> is \<^verbatim>\<open>position_held\<close>.\<close>

definition below_ma200 :: "real list \<Rightarrow> nat \<Rightarrow> merged_row \<Rightarrow> bool" where
  "below_ma200 closes i row =
     (case rolling_mean 200 closes i of
        None \<Rightarrow> False
      | Some m \<Rightarrow> close row < m * (9 / 10))"

fun buy_hold_first_loop :: "real list \<Rightarrow> bool \<Rightarrow> (nat \<times> merged_row) list \<Rightarrow> string list" where
  "buy_hold_first_loop closes held [] = []"
| "buy_hold_first_loop closes held ((i, row) # rest) =
     (if \<not> held then
        (if level_in row [''STRONG_BUY'', ''BUY'']
         then ''BUY'' # buy_hold_first_loop closes True rest
         else ''HOLD'' # buy_hold_first_loop closes held rest)
      else
        (if level row = Some ''STRONG_SELL'' \<and> below_ma200 closes i row
         then ''SELL'' # buy_hold_first_loop closes False rest
         else ''HOLD'' # buy_hold_first_loop closes held rest))"

definition generate_buy_hold_first_signals :: "frame \<Rightarrow> signal_row list" where
  "generate_buy_hold_first_signals df =
     (let rows = frame_rows df; closes = map close rows
      in set_signals rows (buy_hold_first_loop closes False (enumerate 0 rows)))"

subsection \<open>\<^verbatim>\<open>run_signal_backtest\<close>\<close>

text \<open>The chain of \<^verbatim>\<open>if strategy == ...\<close> that picks the generator.\<close>

definition generate_signals :: "string \<Rightarrow> frame \<Rightarrow> py_error + signal_row list" where
  "generate_signals strategy merged_df =
     (if strategy = ''technical_summary'' then Inr (generate_summary_signals merged_df)
      else if strategy = ''rsi'' then Inr (generate_rsi_signals merged_df)
      else if strategy = ''macd'' then generate_macd_signals merged_df
      else if strategy = ''trend_filtered'' then Inr (generate_trend_filtered_signals merged_df)
      else if strategy = ''market_adaptive'' then Inr (generate_market_adaptive_signals merged_df)
      else if strategy = ''buy_hold_first'' then Inr (generate_buy_hold_first_signals merged_df)
      else if strategy = ''low_frequency'' then Inr (generate_low_frequency_signals merged_df)
      else if strategy = ''adx_filtered'' then Inr (generate_adx_filtered_signals merged_df)
      else if strategy = ''momentum_reversal'' then
        Inr (generate_momentum_reversal_signals merged_df)
      else if strategy = ''position_sizing'' then Inr (generate_position_sizing_signals merged_df)
      else Inl (ValueError (''Unknown strategy: '' @ strategy)))"

text \<open>
  \<^verbatim>\<open>run_signal_backtest\<close>, from the three tables on: validation, merge, signal
  generation, execution. The dates are taken as parsed.
\<close>

definition run_signal_backtest ::
  "BacktestConfig \<Rightarrow> candle list \<Rightarrow> indicator list \<Rightarrow> summary list \<Rightarrow> string \<Rightarrow> real
     \<Rightarrow> int \<Rightarrow> int \<Rightarrow> string \<Rightarrow> py_error + BacktestResult" where
  "run_signal_backtest cfg candles_df indicators_df summary_df tick capital0 sdate edate strategy =
     (case validate_data candles_df tick of
        Some e \<Rightarrow> Inl e
      | None \<Rightarrow>
          let merged_df = merge_backtest_data candles_df indicators_df summary_df
          in case generate_signals strategy merged_df of
               Inl e \<Rightarrow> Inl e
             | Inr signals_df \<Rightarrow> execute_backtest cfg signals_df tick capital0 sdate edate)"

subsection \<open>Vocabulary of the properties\<close>

text \<open>
  A ledger made of round trips: a BUY of a positive quantity, then the SELL of that
  quantity, again and again.
\<close>

fun round_trips :: "Trade list \<Rightarrow> bool" where
  "round_trips [] \<longleftrightarrow> True"
| "round_trips [b] \<longleftrightarrow> False"
| "round_trips (b # s # rest) \<longleftrightarrow>
     action b = ''BUY'' \<and> action s = ''SELL'' \<and> 0 < quantity b \<and>
     quantity s = quantity b \<and> round_trips rest"

text \<open>The shares a ledger leaves open: bought less sold.\<close>

fun open_position :: "Trade list \<Rightarrow> int" where
  "open_position [] = 0"
| "open_position (t # rest) =
     (if action t = ''BUY'' then quantity t
      else if action t = ''SELL'' then - quantity t else 0) + open_position rest"

text \<open>The invariant of the loop that ties the ledger to the open position.\<close>

definition ledger_inv :: "sim \<Rightarrow> bool" where
  "ledger_inv s \<longleftrightarrow>
     (position s = 0 \<and> round_trips (trades s)) \<or>
     (0 < position s \<and>
      (\<exists>pairs b. trades s = pairs @ [b] \<and> round_trips pairs \<and>
                 action b = ''BUY'' \<and> quantity b = position s))"


text \<open>Cash and position are never negative.\<close>

definition cash_inv :: "sim \<Rightarrow> bool" where
  "cash_inv s \<longleftrightarrow> 0 \<le> capital s \<and> 0 \<le> position s"


text \<open>Rows and configurations of the worked scenarios: a bar with a close and a signal.\<close>

definition example_bar :: "int \<Rightarrow> real \<Rightarrow> string \<Rightarrow> signal_row" where
  "example_bar t c sg =
     \<lparr>ts = t, open_price = c, high = c, low = c, close = c, volume = 0,
      rsi14 = None, macd = None, macd_signal = None, stoch_k = None, cci14 = None,
      roc = None, level = None, signal = sg, position_size = None\<rparr>"

definition example_config :: "real \<Rightarrow> real \<Rightarrow> BacktestConfig" where
  "example_config rate ratio =
     \<lparr>transaction_cost_rate = rate, max_position_ratio = ratio,
      stop_loss_ratio = 5 / 100, risk_free_rate = 3 / 100\<rparr>"



text \<open>What identifies a trade in a fixed trade sequence: all but cost and reason.\<close>

definition trade_key :: "Trade \<Rightarrow> int \<times> string \<times> real \<times> int" where
  "trade_key t = (timestamp t, action t, price t, quantity t)"

text \<open>The cash a trade moves, as a function of the cost rate.\<close>

definition notional :: "Trade \<Rightarrow> real" where
  "notional t = of_int (quantity t) * price t"

definition cash_flow :: "real \<Rightarrow> Trade \<Rightarrow> real" where
  "cash_flow rate t =
     (if action t = ''BUY'' then - (notional t * (1 + rate)) else notional t * (1 - rate))"

text \<open>The cash is the initial capital plus the flows of the ledger.\<close>

definition flow_inv :: "real \<Rightarrow> real \<Rightarrow> sim \<Rightarrow> bool" where
  "flow_inv c0 rate s \<longleftrightarrow>
     capital s = c0 + sum_list (map (cash_flow rate) (trades s)) \<and>
     0 \<le> position s \<and> list_all (\<lambda>t. 0 \<le> notional t) (trades s)"

text \<open>Without capital nothing is ever bought.\<close>

definition idle_inv :: "sim \<Rightarrow> bool" where
  "idle_inv s \<longleftrightarrow> capital s \<le> 0 \<and> position s = 0 \<and> trades s = []"


text \<open>Candles of the worked scenarios, and the names \<^verbatim>\<open>run_signal_backtest\<close> knows.\<close>

definition example_candle :: "int \<Rightarrow> real \<Rightarrow> candle" where
  "example_candle t c =
     \<lparr>candle_ts = t, candle_open = c, candle_high = c, candle_low = c, candle_close = c,
      candle_volume = 0\<rparr>"

definition strategy_names :: "string list" where
  "strategy_names =
     [''technical_summary'', ''rsi'', ''macd'', ''trend_filtered'', ''market_adaptive'',
      ''buy_hold_first'', ''low_frequency'', ''adx_filtered'', ''momentum_reversal'',
      ''position_sizing'']"


section \<open>Properties of the rounding\<close>

text \<open>
  The rules by which a worked scenario is evaluated: \<open>round_double x\<close> is known as
  soon as the binade of \<open>x\<close> and the nearest multiple of its spacing are; a double,
  an integer below \<open>2 ^ 53\<close> in particular, is left as it is; a square root is
  rounded by comparing squares.
\<close>

lemma round_half_even_of_int: "round_half_even (of_int n) = n"
  by (simp add: round_half_even_def)

lemma round_double_0: "round_double 0 = 0"
  using round_half_even_of_int [of 0] by (simp add: round_double_def)

lemma two_powi_scaled:
  assumes "- 1074 \<le> k"
  shows "(2::real) powi k * 2 ^ 1074 = 2 ^ nat (k + 1074)"
proof -
  have "(2::real) powi k * 2 ^ 1074 = 2 powi k * 2 powi 1074"
    by (simp add: power_int_def)
  also have "\<dots> = 2 powi (k + 1074)"
    by (simp add: power_int_add)
  also have "\<dots> = 2 ^ nat (k + 1074)"
    using assms by (simp add: power_int_def)
  finally show ?thesis .
qed

lemma grid_exponent_normal:
  assumes "2 powi e \<le> \<bar>x\<bar>" and "\<bar>x\<bar> < 2 powi (e + 1)" and "- 1022 \<le> e"
  shows "grid_exponent x = e - 52"
proof -
  let ?n = "\<lfloor>\<bar>x\<bar> * 2 ^ 1074\<rfloor>"
  have lo: "(2::real) ^ nat (e + 1074) \<le> \<bar>x\<bar> * 2 ^ 1074"
    using assms(1,3) two_powi_scaled [of e] by (simp add: mult_right_mono)
  have hi: "\<bar>x\<bar> * 2 ^ 1074 < (2::real) ^ nat (e + 1075)"
    using assms(2,3) two_powi_scaled [of "e + 1"] by (simp add: add.commute mult_strict_right_mono)
  have "(2::int) ^ nat (e + 1074) \<le> ?n"
    using lo by (simp add: le_floor_iff)
  moreover have "?n < (2::int) ^ nat (e + 1075)"
    using hi by (simp add: floor_less_iff)
  moreover have "nat (e + 1075) - 1 = nat (e + 1074)" using assms(3) by simp
  ultimately have "bitlen ?n = e + 1075"
    using assms(3)
    by (intro antisym) (simp_all add: bitlen_le_iff_power bitlen_ge_iff_power)
  then show ?thesis using assms(3) by (simp add: grid_exponent_def)
qed

text \<open>The rounded value is within half a spacing of the real.\<close>

lemma round_half_even_near: "\<bar>of_int (round_half_even r) - r\<bar> \<le> 1 / 2"
proof -
  have "of_int \<lfloor>r\<rfloor> \<le> r" "r < of_int \<lfloor>r\<rfloor> + 1" by linarith+
  then show ?thesis
    by (auto simp add: round_half_even_def Let_def)
qed

lemma round_double_near:
  assumes "2 powi e \<le> \<bar>x\<bar>" and "\<bar>x\<bar> < 2 powi (e + 1)" and "- 1022 \<le> e"
  shows "\<bar>round_double x - x\<bar> \<le> 2 powi (e - 53)"
proof -
  let ?u = "(2::real) powi (e - 52)"
  have u: "0 < ?u" by simp
  have rd: "round_double x = of_int (round_half_even (x / ?u)) * ?u"
    by (simp add: round_double_def grid_exponent_normal [OF assms] Let_def)
  have "round_double x - x = (of_int (round_half_even (x / ?u)) - x / ?u) * ?u"
    unfolding rd using u by (simp add: left_diff_distrib)
  then have "\<bar>round_double x - x\<bar> = \<bar>of_int (round_half_even (x / ?u)) - x / ?u\<bar> * ?u"
    using u by (simp add: abs_mult)
  also have "\<dots> \<le> 1 / 2 * ?u"
    using round_half_even_near [of "x / ?u"] u by (intro mult_right_mono) simp_all
  also have "\<dots> = 2 powi (e - 53)"
    by (simp add: power_int_diff)
  finally show ?thesis .
qed

lemma round_double_eqI:
  assumes "2 powi e \<le> \<bar>x\<bar>" and "\<bar>x\<bar> < 2 powi (e + 1)" and "- 1022 \<le> e"
    and "round_half_even (x / 2 powi (e - 52)) = m"
    and "y = of_int m * 2 powi (e - 52)"
  shows "round_double x = y"
  using assms(4,5) by (simp add: round_double_def grid_exponent_normal [OF assms(1-3)])

lemma round_double_representable:
  assumes "\<bar>m\<bar> < 2 ^ 53" and "- 1074 \<le> k"
  shows "round_double (of_int m * 2 powi k) = of_int m * 2 powi k"
proof (cases "m = 0")
  case True
  then show ?thesis by (simp add: round_double_0)
next
  case False
  let ?x = "of_int m * (2::real) powi k"
  define g where "g = grid_exponent ?x"
  have "\<bar>?x\<bar> * 2 ^ 1074 = of_int \<bar>m\<bar> * (2 powi k * 2 ^ 1074)"
    by (simp add: abs_mult)
  also have "\<dots> = of_int (\<bar>m\<bar> * 2 ^ nat (k + 1074))"
    using two_powi_scaled [OF assms(2)] by simp
  finally have "\<lfloor>\<bar>?x\<bar> * 2 ^ 1074\<rfloor> = \<bar>m\<bar> * 2 ^ nat (k + 1074)"
    by (simp only: floor_of_int)
  then have "bitlen \<lfloor>\<bar>?x\<bar> * 2 ^ 1074\<rfloor> = bitlen \<bar>m\<bar> + (k + 1074)"
    using False assms(2) by (simp add: bitlen_pow2)
  moreover have "bitlen \<bar>m\<bar> \<le> 53"
    using assms(1) by (simp add: bitlen_le_iff_power)
  ultimately have gk: "g \<le> k"
    using assms(2) by (simp add: g_def grid_exponent_def)
  have "(2::real) powi k = 2 powi (k - g) * 2 powi g"
    by (simp add: power_int_add [symmetric])
  also have "(2::real) powi (k - g) = of_int (2 ^ nat (k - g))"
    using gk by (simp add: power_int_def)
  finally have split: "?x = of_int (m * 2 ^ nat (k - g)) * 2 powi g"
    by simp
  have "?x / 2 powi g = of_int (m * 2 ^ nat (k - g))"
    by (subst split) simp
  then have "round_half_even (?x / 2 powi g) = m * 2 ^ nat (k - g)"
    by (simp only: round_half_even_of_int)
  then have "round_double ?x = of_int (m * 2 ^ nat (k - g)) * 2 powi g"
    by (simp only: round_double_def g_def Let_def)
  then show ?thesis unfolding split [symmetric] .
qed

lemma round_double_of_int:
  "\<bar>n\<bar> < 2 ^ 53 \<Longrightarrow> round_double (of_int n) = of_int n"
  using round_double_representable [of n 0] by simp

lemma round_double_numeral:
  "numeral k < (9007199254740992::int) \<Longrightarrow> round_double (numeral k) = numeral k"
  using round_double_of_int [of "numeral k"] by simp

lemma round_double_1: "round_double 1 = 1"
  using round_double_of_int [of 1] by simp

lemma round_half_even_eqI:
  "of_int m - 1 / 2 < r \<Longrightarrow> r < of_int m + 1 / 2 \<Longrightarrow> round_half_even r = m"
proof -
  assume a: "of_int m - 1 / 2 < r" and b: "r < of_int m + 1 / 2"
  have "of_int (m - 1) \<le> r" "r < of_int (m + 1)" using a b by simp_all
  then have "m - 1 \<le> \<lfloor>r\<rfloor>" "\<lfloor>r\<rfloor> < m + 1"
    by (simp_all only: le_floor_iff floor_less_iff)
  then consider "\<lfloor>r\<rfloor> = m" | "\<lfloor>r\<rfloor> = m - 1" by linarith
  then show ?thesis
  proof cases
    case 1
    then show ?thesis using b by (simp add: round_half_even_def)
  next
    case 2
    then show ?thesis using a by (simp add: round_half_even_def)
  qed
qed

lemma round_double_sqrt_eqI:
  assumes "- 1022 \<le> e" and "0 \<le> x"
    and "(2 powi e)\<^sup>2 \<le> x" and "x < (2 powi (e + 1))\<^sup>2"
    and "1 \<le> m"
    and "((of_int m - 1 / 2) * 2 powi (e - 52))\<^sup>2 < x"
    and "x < ((of_int m + 1 / 2) * 2 powi (e - 52))\<^sup>2"
    and "y = of_int m * 2 powi (e - 52)"
  shows "round_double (sqrt x) = y"
proof (rule round_double_eqI [where e = e and m = m])
  have pos: "(0::real) < 2 powi e" "(0::real) < 2 powi (e + 1)" "(0::real) < 2 powi (e - 52)"
    by simp_all
  show "2 powi e \<le> \<bar>sqrt x\<bar>"
    using assms(2,3) pos(1) by (simp add: real_le_rsqrt)
  show "\<bar>sqrt x\<bar> < 2 powi (e + 1)"
    using assms(2,4) pos(2) by (simp add: real_less_lsqrt)
  show "- 1022 \<le> e" by fact
  have lo: "(of_int m - 1 / 2) * 2 powi (e - 52) < sqrt x"
    using assms(5,6) pos(3) by (intro real_less_rsqrt) simp
  have hi: "sqrt x < (of_int m + 1 / 2) * 2 powi (e - 52)"
    using assms(2,5,7) pos(3) by (intro real_less_lsqrt) simp_all
  show "round_half_even (sqrt x / 2 powi (e - 52)) = m"
    using lo hi pos(3) by (intro round_half_even_eqI) (simp_all add: field_simps)
  show "y = of_int m * 2 powi (e - 52)" by fact
qed

section \<open>Properties of the execution core\<close>

subsection \<open>One bar in double precision\<close>

lemma backtest_loop_f64_append:
  "backtest_loop_f64 cfg s (xs @ ys) =
     (case backtest_loop_f64 cfg s xs of
        Inl e \<Rightarrow> Inl e | Inr s' \<Rightarrow> backtest_loop_f64 cfg s' ys)"
  by (induction xs arbitrary: s) (simp_all split: sum.splits)

lemma backtest_loop_f64_snoc:
  "backtest_loop_f64 cfg s0 pre = Inr s \<Longrightarrow>
     backtest_loop_f64 cfg s0 (pre @ [row]) = backtest_step_f64 cfg s row"
  by (simp add: backtest_loop_f64_append split: sum.splits)

lemma step_f64_stop_loss:
  assumes "0 < position s"
    and "close row \<le> f64_mul (entry_price s) (f64_sub 1 (stop_loss_ratio cfg))"
  shows "backtest_step_f64 cfg s row =
     Inr (record_value_f64 (close row) (sell_branch_f64 cfg s (ts row) (close row) ''STOP_LOSS''))"
  using assms by (simp add: backtest_step_f64_def stop_loss_hit_f64_def Let_def)

lemma step_f64_buy_flat:
  assumes "position s = 0" and "signal row = ''BUY''"
  shows "backtest_step_f64 cfg s row =
     (case buy_branch_f64 cfg s (ts row) (close row) ''BUY'' of
        Inl e \<Rightarrow> Inl e | Inr s' \<Rightarrow> Inr (record_value_f64 (close row) s'))"
  using assms by (simp add: backtest_step_f64_def stop_loss_hit_f64_def Let_def)

text \<open>
  Claim C1 puts the stop-loss threshold at \<open>entry_price * (1 - stop_loss_ratio)\<close>,
  inclusive. As stated it does not hold of the program, which compares the close with
  the double it computes for that product, and that double can lie below the product.
  Entered at 90 with a stop-loss ratio of 0.3, a close of 63 is at the threshold, for
  the decimal 0.3 and for the double that Python reads for it alike. The program
  computes \<^verbatim>\<open>90 * (1 - 0.3) = 62.99999999999999\<close> and holds: after the two bars
  the ledger has the BUY only, and the 111 shares are still open.
\<close>

theorem stop_loss_boundary_counterexample:
  "(63 :: real) \<le> 90 * (1 - 3 / 10) \<and>
   63 \<le> 90 * (1 - round_double (3 / 10)) \<and>
   backtest_loop_f64
     (default_config\<lparr>transaction_cost_rate := 0, max_position_ratio := 1,
        stop_loss_ratio := round_double (3 / 10)\<rparr>)
     (initial_sim 10000) [example_bar 1 90 ''BUY'', example_bar 2 63 ''HOLD''] =
   Inr \<lparr>capital = 10, position = 111,
        entry_price = 90,
        trades =
          [\<lparr>timestamp = 1, action = ''BUY'', price = 90,
            quantity = 111, reason = ''BUY'', transaction_cost = 0\<rparr>],
        portfolio_values = [10000, 7003],
        total_transaction_cost = 0\<rparr>"
proof -
  have h1: "round_double (3 / 10) = 5404319552844595 / 18014398509481984"
    by (rule round_double_eqI [where e = "- 2" and m = "5404319552844595"])
       (simp_all add: round_half_even_def)
  have h2: "f64_mul 10000 1 = 10000"
    by (simp add: f64_mul_def round_double_numeral)
  have h3: "f64_of_int 111 = 111"
    by (simp add: f64_of_int_def round_double_numeral)
  have h4: "f64_mul 111 90 = 9990"
    by (simp add: f64_mul_def round_double_numeral)
  have h5: "f64_mul 9990 0 = 0"
    by (simp add: f64_mul_def round_double_0)
  have h6: "f64_add 9990 0 = 9990"
    by (simp add: f64_add_def round_double_numeral)
  have h7: "f64_sub 10000 9990 = 10"
    by (simp add: f64_sub_def round_double_numeral)
  have h8: "f64_add 0 0 = 0"
    by (simp add: f64_add_def round_double_0)
  have h9: "f64_add 10 9990 = 10000"
    by (simp add: f64_add_def round_double_numeral)
  have h10: "f64_sub 1 (5404319552844595 / 18014398509481984) = 3152519739159347 / 4503599627370496"
    unfolding f64_sub_def by (rule round_double_eqI [where e = "- 1" and m = "6305039478318694"])
       (simp_all add: round_half_even_def)
  have h11: "f64_mul 90 (3152519739159347 / 4503599627370496) = 8866461766385663 / 140737488355328"
    unfolding f64_mul_def by (rule round_double_eqI [where e = "5" and m = "8866461766385663"])
       (simp_all add: round_half_even_def)
  have h12: "f64_mul 111 63 = 6993"
    by (simp add: f64_mul_def round_double_numeral)
  have h13: "f64_add 10 6993 = 7003"
    by (simp add: f64_add_def round_double_numeral)
  show ?thesis
    by (simp add: default_config_def example_bar_def initial_sim_def backtest_step_f64_def
        stop_loss_hit_f64_def buy_branch_f64_def sell_branch_f64_def record_value_f64_def Let_def
        h1 h2 h3 h4 h5 h6 h7 h8 h9 h10 h11 h12 h13)
qed

text \<open>
  The same with the default ratio of 0.05: entered at 9, the position is not sold at
  a close of 8.55, the computed threshold being \<^verbatim>\<open>8.549999999999999\<close>.
\<close>

lemma stop_loss_default_ratio_example:
  "(855 / 100 :: real) \<le> 9 * (1 - 5 / 100) \<and>
   backtest_loop_f64 (default_config\<lparr>transaction_cost_rate := 0, max_position_ratio := 1\<rparr>)
     (initial_sim 10000)
     [example_bar 1 9 ''BUY'', example_bar 2 (round_double (855 / 100)) ''HOLD''] =
   Inr \<lparr>capital = 1, position = 1111,
        entry_price = 9,
        trades =
          [\<lparr>timestamp = 1, action = ''BUY'', price = 9,
            quantity = 1111, reason = ''BUY'', transaction_cost = 0\<rparr>],
        portfolio_values = [10000, 5222707719726695 / 549755813888],
        total_transaction_cost = 0\<rparr>"
proof -
  have h1: "round_double (1 / 20) = 3602879701896397 / 72057594037927936"
    by (rule round_double_eqI [where e = "- 5" and m = "7205759403792794"])
       (simp_all add: round_half_even_def)
  have h2: "round_double (171 / 20) = 2406611050876109 / 281474976710656"
    by (rule round_double_eqI [where e = "3" and m = "4813222101752218"])
       (simp_all add: round_half_even_def)
  have h3: "f64_mul 10000 1 = 10000"
    by (simp add: f64_mul_def round_double_numeral)
  have h4: "f64_of_int 1111 = 1111"
    by (simp add: f64_of_int_def round_double_numeral)
  have h5: "f64_mul 1111 9 = 9999"
    by (simp add: f64_mul_def round_double_numeral)
  have h6: "f64_mul 9999 0 = 0"
    by (simp add: f64_mul_def round_double_0)
  have h7: "f64_add 9999 0 = 9999"
    by (simp add: f64_add_def round_double_numeral)
  have h8: "f64_sub 10000 9999 = 1"
    by (simp add: f64_sub_def round_double_1)
  have h9: "f64_add 0 0 = 0"
    by (simp add: f64_add_def round_double_0)
  have h10: "f64_add 1 9999 = 10000"
    by (simp add: f64_add_def round_double_numeral)
  have h11: "f64_sub 1 (3602879701896397 / 72057594037927936) = 4278419646001971 / 4503599627370496"
    unfolding f64_sub_def by (rule round_double_eqI [where e = "- 1" and m = "8556839292003942"])
       (simp_all add: round_half_even_def)
  have h12: "f64_mul 9 (4278419646001971 / 4503599627370496) = 4813222101752217 / 562949953421312"
    unfolding f64_mul_def by (rule round_double_eqI [where e = "3" and m = "4813222101752217"])
       (simp_all add: round_half_even_def)
  have h13: "f64_mul 1111 (2406611050876109 / 281474976710656) = 5222157963912807 / 549755813888"
    unfolding f64_mul_def by (rule round_double_eqI [where e = "13" and m = "5222157963912807"])
       (simp_all add: round_half_even_def)
  have h14: "f64_add 1 (5222157963912807 / 549755813888) = 5222707719726695 / 549755813888"
    unfolding f64_add_def by (rule round_double_eqI [where e = "13" and m = "5222707719726695"])
       (simp_all add: round_half_even_def)
  show ?thesis
    by (simp add: default_config_def example_bar_def initial_sim_def backtest_step_f64_def
        stop_loss_hit_f64_def buy_branch_f64_def sell_branch_f64_def record_value_f64_def Let_def
        h1 h2 h3 h4 h5 h6 h7 h8 h9 h10 h11 h12 h13 h14)
qed

text \<open>
  Claim C1, amended to the threshold that the program computes. At any bar that a run
  reaches with an open position, a close at or below the double
  \<open>f64_mul entry_price (f64_sub 1 stop_loss_ratio)\<close> makes the core append a SELL
  tagged \<^verbatim>\<open>STOP_LOSS\<close> at that bar for the whole position, whatever the row's signal
  is (the signal of \<open>row\<close> is not constrained); the bound is inclusive at that
  double. The cost of the trade and the cash after it are the rounded ones of the
  SELL branch.
\<close>

theorem stop_loss_fires:
  assumes "backtest_loop_f64 cfg (initial_sim c0) pre = Inr s"
    and "0 < position s"
    and "close row \<le> f64_mul (entry_price s) (f64_sub 1 (stop_loss_ratio cfg))"
  shows "\<exists>s'. backtest_loop_f64 cfg (initial_sim c0) (pre @ [row]) = Inr s' \<and>
           trades s' = trades s @
             [\<lparr>timestamp = ts row, action = ''SELL'', price = close row,
               quantity = position s, reason = ''STOP_LOSS'',
               transaction_cost =
                 f64_mul (f64_mul (f64_of_int (position s)) (close row))
                   (transaction_cost_rate cfg)\<rparr>] \<and>
           position s' = 0 \<and>
           capital s' =
             f64_add (capital s)
               (f64_sub (f64_mul (f64_of_int (position s)) (close row))
                  (f64_mul (f64_mul (f64_of_int (position s)) (close row))
                     (transaction_cost_rate cfg)))"
proof -
  let ?s' = "record_value_f64 (close row)
               (sell_branch_f64 cfg s (ts row) (close row) ''STOP_LOSS'')"
  have "backtest_loop_f64 cfg (initial_sim c0) (pre @ [row]) = Inr ?s'"
    using assms by (simp add: backtest_loop_f64_snoc step_f64_stop_loss)
  then show ?thesis
    by (simp add: record_value_f64_def sell_branch_f64_def Let_def)
qed

theorem stop_loss_fires_witness:
  "\<exists>s'. backtest_loop_f64
            (default_config\<lparr>transaction_cost_rate := 0, max_position_ratio := 1\<rparr>)
            (initial_sim 10000) ([example_bar 1 100 ''BUY''] @ [example_bar 2 95 ''BUY'']) = Inr s' \<and>
        trades s' =
          [\<lparr>timestamp = 1, action = ''BUY'', price = 100, quantity = 100,
            reason = ''BUY'', transaction_cost = 0\<rparr>,
           \<lparr>timestamp = 2, action = ''SELL'', price = 95, quantity = 100,
            reason = ''STOP_LOSS'', transaction_cost = 0\<rparr>] \<and>
        position s' = 0 \<and> capital s' = 9500"
proof -
  let ?cfg = "default_config\<lparr>transaction_cost_rate := 0, max_position_ratio := 1\<rparr>"
  let ?s = "\<lparr>capital = 0, position = 100,
        entry_price = 100,
        trades =
          [\<lparr>timestamp = 1, action = ''BUY'', price = 100,
            quantity = 100, reason = ''BUY'', transaction_cost = 0\<rparr>],
        portfolio_values = [10000],
        total_transaction_cost = 0\<rparr>"
  have h1: "round_double (1 / 20) = 3602879701896397 / 72057594037927936"
    by (rule round_double_eqI [where e = "- 5" and m = "7205759403792794"])
       (simp_all add: round_half_even_def)
  have h2: "f64_mul 10000 1 = 10000"
    by (simp add: f64_mul_def round_double_numeral)
  have h3: "f64_of_int 100 = 100"
    by (simp add: f64_of_int_def round_double_numeral)
  have h4: "f64_mul 100 100 = 10000"
    by (simp add: f64_mul_def round_double_numeral)
  have h5: "f64_mul 10000 0 = 0"
    by (simp add: f64_mul_def round_double_0)
  have h6: "f64_add 10000 0 = 10000"
    by (simp add: f64_add_def round_double_numeral)
  have h7: "f64_sub 10000 10000 = 0"
    by (simp add: f64_sub_def round_double_0)
  have h8: "f64_add 0 0 = 0"
    by (simp add: f64_add_def round_double_0)
  have h9: "f64_add 0 10000 = 10000"
    by (simp add: f64_add_def round_double_numeral)
  have h10: "f64_sub 1 (3602879701896397 / 72057594037927936) = 4278419646001971 / 4503599627370496"
    unfolding f64_sub_def by (rule round_double_eqI [where e = "- 1" and m = "8556839292003942"])
       (simp_all add: round_half_even_def)
  have h11: "f64_mul 100 (4278419646001971 / 4503599627370496) = 95"
    unfolding f64_mul_def by (rule round_double_eqI [where e = "6" and m = "6685030696878080"])
       (simp_all add: round_half_even_def)
  have h12: "f64_mul 100 95 = 9500"
    by (simp add: f64_mul_def round_double_numeral)
  have h13: "f64_mul 9500 0 = 0"
    by (simp add: f64_mul_def round_double_0)
  have h14: "f64_sub 9500 0 = 9500"
    by (simp add: f64_sub_def round_double_numeral)
  have h15: "f64_add 0 9500 = 9500"
    by (simp add: f64_add_def round_double_numeral)
  have h16: "f64_of_int 0 = 0"
    by (simp add: f64_of_int_def round_double_0)
  have h17: "f64_mul 0 95 = 0"
    by (simp add: f64_mul_def round_double_0)
  have h18: "f64_add 9500 0 = 9500"
    by (simp add: f64_add_def round_double_numeral)
  have run: "backtest_loop_f64 ?cfg (initial_sim 10000) [example_bar 1 100 ''BUY''] = Inr ?s"
    by (simp add: default_config_def example_bar_def initial_sim_def backtest_step_f64_def
        stop_loss_hit_f64_def buy_branch_f64_def sell_branch_f64_def record_value_f64_def Let_def
        h1 h2 h3 h4 h5 h6 h7 h8 h9 h10 h11 h12 h13 h14
        h15 h16 h17 h18)
  have long: "0 < position ?s" by simp
  have low: "close (example_bar 2 95 ''BUY'')
               \<le> f64_mul (entry_price ?s) (f64_sub 1 (stop_loss_ratio ?cfg))"
    by (simp add: default_config_def example_bar_def
        h1 h2 h3 h4 h5 h6 h7 h8 h9 h10 h11 h12 h13 h14
        h15 h16 h17 h18)
  show ?thesis
    using stop_loss_fires [OF run long low]
    by (simp add: default_config_def example_bar_def
        h1 h2 h3 h4 h5 h6 h7 h8 h9 h10 h11 h12 h13 h14
        h15 h16 h17 h18)
qed

text \<open>
  The three bars 100, 95, 80 entered at 100 with the default ratio, in doubles: the
  threshold computed is exactly 95, and the position is sold there.
\<close>

lemma stop_loss_scenario_doubles:
  "backtest_loop_f64 (default_config\<lparr>transaction_cost_rate := 0, max_position_ratio := 1\<rparr>)
     (initial_sim 10000)
     [example_bar 1 100 ''BUY'', example_bar 2 95 ''HOLD'', example_bar 3 80 ''HOLD''] =
   Inr \<lparr>capital = 9500, position = 0,
        entry_price = 0,
        trades =
          [\<lparr>timestamp = 1, action = ''BUY'', price = 100,
            quantity = 100, reason = ''BUY'', transaction_cost = 0\<rparr>,
           \<lparr>timestamp = 2, action = ''SELL'', price = 95,
            quantity = 100, reason = ''STOP_LOSS'', transaction_cost = 0\<rparr>],
        portfolio_values = [10000, 9500, 9500],
        total_transaction_cost = 0\<rparr>"
proof -
  have h1: "round_double (1 / 20) = 3602879701896397 / 72057594037927936"
    by (rule round_double_eqI [where e = "- 5" and m = "7205759403792794"])
       (simp_all add: round_half_even_def)
  have h2: "f64_mul 10000 1 = 10000"
    by (simp add: f64_mul_def round_double_numeral)
  have h3: "f64_of_int 100 = 100"
    by (simp add: f64_of_int_def round_double_numeral)
  have h4: "f64_mul 100 100 = 10000"
    by (simp add: f64_mul_def round_double_numeral)
  have h5: "f64_mul 10000 0 = 0"
    by (simp add: f64_mul_def round_double_0)
  have h6: "f64_add 10000 0 = 10000"
    by (simp add: f64_add_def round_double_numeral)
  have h7: "f64_sub 10000 10000 = 0"
    by (simp add: f64_sub_def round_double_0)
  have h8: "f64_add 0 0 = 0"
    by (simp add: f64_add_def round_double_0)
  have h9: "f64_add 0 10000 = 10000"
    by (simp add: f64_add_def round_double_numeral)
  have h10: "f64_sub 1 (3602879701896397 / 72057594037927936) = 4278419646001971 / 4503599627370496"
    unfolding f64_sub_def by (rule round_double_eqI [where e = "- 1" and m = "8556839292003942"])
       (simp_all add: round_half_even_def)
  have h11: "f64_mul 100 (4278419646001971 / 4503599627370496) = 95"
    unfolding f64_mul_def by (rule round_double_eqI [where e = "6" and m = "6685030696878080"])
       (simp_all add: round_half_even_def)
  have h12: "f64_mul 100 95 = 9500"
    by (simp add: f64_mul_def round_double_numeral)
  have h13: "f64_mul 9500 0 = 0"
    by (simp add: f64_mul_def round_double_0)
  have h14: "f64_sub 9500 0 = 9500"
    by (simp add: f64_sub_def round_double_numeral)
  have h15: "f64_add 0 9500 = 9500"
    by (simp add: f64_add_def round_double_numeral)
  have h16: "f64_of_int 0 = 0"
    by (simp add: f64_of_int_def round_double_0)
  have h17: "f64_mul 0 95 = 0"
    by (simp add: f64_mul_def round_double_0)
  have h18: "f64_add 9500 0 = 9500"
    by (simp add: f64_add_def round_double_numeral)
  have h19: "f64_mul 0 80 = 0"
    by (simp add: f64_mul_def round_double_0)
  show ?thesis
    by (simp add: default_config_def example_bar_def initial_sim_def backtest_step_f64_def
        stop_loss_hit_f64_def buy_branch_f64_def sell_branch_f64_def record_value_f64_def Let_def
        h1 h2 h3 h4 h5 h6 h7 h8 h9 h10 h11 h12 h13 h14
        h15 h16 h17 h18 h19)
qed

text \<open>
  Claim C3 gives the quantity as \<open>\<lfloor>cash * max_position_ratio / price\<rfloor>\<close>. As stated
  it does not hold of the program, which rounds the product before it divides. With a
  cash of 1000, a ratio of 0.9 and a price of 0.9 the claimed quantity is 1000, for
  the decimals and for their doubles alike (ratio and price are the same double). The
  program computes \<^verbatim>\<open>max_investment = 1000 * 0.9 = 900.0\<close>, and
  \<^verbatim>\<open>900.0 // 0.9\<close> is 999: it buys 999 shares.
\<close>

theorem buy_quantity_counterexample:
  "\<lfloor>(1000 :: real) * (9 / 10) / (9 / 10)\<rfloor> = 1000 \<and>
   \<lfloor>1000 * round_double (9 / 10) / round_double (9 / 10)\<rfloor> = 1000 \<and>
   backtest_loop_f64
     (default_config\<lparr>transaction_cost_rate := 0, max_position_ratio := round_double (9 / 10)\<rparr>)
     (initial_sim 1000) [example_bar 1 (round_double (9 / 10)) ''BUY''] =
   Inr \<lparr>capital = 887525785940787 / 8796093022208, position = 999,
        entry_price = 8106479329266893 / 9007199254740992,
        trades =
          [\<lparr>timestamp = 1, action = ''BUY'', price = 8106479329266893 / 9007199254740992,
            quantity = 999, reason = ''BUY'', transaction_cost = 0\<rparr>],
        portfolio_values = [1000],
        total_transaction_cost = 0\<rparr>"
proof -
  have h1: "round_double (9 / 10) = 8106479329266893 / 9007199254740992"
    by (rule round_double_eqI [where e = "- 1" and m = "8106479329266893"])
       (simp_all add: round_half_even_def)
  have h2: "f64_mul 1000 (8106479329266893 / 9007199254740992) = 900"
    unfolding f64_mul_def by (rule round_double_eqI [where e = "9" and m = "7916483719987200"])
       (simp_all add: round_half_even_def)
  have h3: "f64_of_int 999 = 999"
    by (simp add: f64_of_int_def round_double_numeral)
  have h4: "f64_mul 999 (8106479329266893 / 9007199254740992) = 7908567236267213 / 8796093022208"
    unfolding f64_mul_def by (rule round_double_eqI [where e = "9" and m = "7908567236267213"])
       (simp_all add: round_half_even_def)
  have h5: "f64_mul (7908567236267213 / 8796093022208) 0 = 0"
    by (simp add: f64_mul_def round_double_0)
  have h6: "f64_add (7908567236267213 / 8796093022208) 0 = 7908567236267213 / 8796093022208"
    unfolding f64_add_def by (rule round_double_eqI [where e = "9" and m = "7908567236267213"])
       (simp_all add: round_half_even_def)
  have h7: "f64_sub 1000 (7908567236267213 / 8796093022208) = 887525785940787 / 8796093022208"
    unfolding f64_sub_def by (rule round_double_eqI [where e = "6" and m = "7100206287526296"])
       (simp_all add: round_half_even_def)
  have h8: "f64_add 0 0 = 0"
    by (simp add: f64_add_def round_double_0)
  have h9: "f64_add (887525785940787 / 8796093022208) (7908567236267213 / 8796093022208) = 1000"
    by (simp add: f64_add_def round_double_numeral)
  show ?thesis
    by (simp add: default_config_def example_bar_def initial_sim_def backtest_step_f64_def
        stop_loss_hit_f64_def buy_branch_f64_def sell_branch_f64_def record_value_f64_def Let_def
        h1 h2 h3 h4 h5 h6 h7 h8 h9)
qed

text \<open>
  A decimal price alone does it as well: with a cash of 10000 and the whole of it
  invested at a price of 0.1 the program buys 99999 shares, not 100000.
\<close>

lemma buy_quantity_decimal_price_example:
  "\<lfloor>(10000 :: real) * 1 / (1 / 10)\<rfloor> = 100000 \<and>
   backtest_loop_f64 (default_config\<lparr>transaction_cost_rate := 0, max_position_ratio := 1\<rparr>)
     (initial_sim 10000) [example_bar 1 (round_double (1 / 10)) ''BUY''] =
   Inr \<lparr>capital = 13743895347 / 137438953472, position = 99999,
        entry_price = 3602879701896397 / 36028797018963968,
        trades =
          [\<lparr>timestamp = 1, action = ''BUY'', price = 3602879701896397 / 36028797018963968,
            quantity = 99999, reason = ''BUY'', transaction_cost = 0\<rparr>],
        portfolio_values = [10000],
        total_transaction_cost = 0\<rparr>"
proof -
  have h1: "round_double (1 / 10) = 3602879701896397 / 36028797018963968"
    by (rule round_double_eqI [where e = "- 4" and m = "7205759403792794"])
       (simp_all add: round_half_even_def)
  have h2: "f64_mul 10000 1 = 10000"
    by (simp add: f64_mul_def round_double_numeral)
  have h3: "f64_of_int 99999 = 99999"
    by (simp add: f64_of_int_def round_double_numeral)
  have h4: "f64_mul 99999 (3602879701896397 / 36028797018963968) = 1374375790824653 / 137438953472"
    unfolding f64_mul_def by (rule round_double_eqI [where e = "13" and m = "5497503163298612"])
       (simp_all add: round_half_even_def)
  have h5: "f64_mul (1374375790824653 / 137438953472) 0 = 0"
    by (simp add: f64_mul_def round_double_0)
  have h6: "f64_add (1374375790824653 / 137438953472) 0 = 1374375790824653 / 137438953472"
    unfolding f64_add_def by (rule round_double_eqI [where e = "13" and m = "5497503163298612"])
       (simp_all add: round_half_even_def)
  have h7: "f64_sub 10000 (1374375790824653 / 137438953472) = 13743895347 / 137438953472"
    unfolding f64_sub_def by (rule round_double_eqI [where e = "- 4" and m = "7205759403687936"])
       (simp_all add: round_half_even_def)
  have h8: "f64_add 0 0 = 0"
    by (simp add: f64_add_def round_double_0)
  have h9: "f64_add (13743895347 / 137438953472) (1374375790824653 / 137438953472) = 10000"
    by (simp add: f64_add_def round_double_numeral)
  show ?thesis
    by (simp add: default_config_def example_bar_def initial_sim_def backtest_step_f64_def
        stop_loss_hit_f64_def buy_branch_f64_def sell_branch_f64_def record_value_f64_def Let_def
        h1 h2 h3 h4 h5 h6 h7 h8 h9)
qed

text \<open>
  And so does the default configuration: of a cash of 100000 it invests 95000, which
  at a price of 1.52 is 62500 shares; the program buys 62499.
\<close>

lemma buy_quantity_default_config_example:
  "\<lfloor>(100000 :: real) * (95 / 100) / (152 / 100)\<rfloor> = 62500 \<and>
   backtest_loop_f64 default_config (initial_sim 100000)
     [example_bar 1 (round_double (152 / 100)) ''BUY''] =
   Inr \<lparr>capital = 166954734265083 / 34359738368, position = 62499,
        entry_price = 3422735716801577 / 2251799813685248,
        trades =
          [\<lparr>timestamp = 1, action = ''BUY'', price = 3422735716801577 / 2251799813685248,
            quantity = 62499, reason = ''BUY'', transaction_cost = 5013692802290197 / 35184372088832\<rparr>],
        portfolio_values = [6862155304845527 / 68719476736],
        total_transaction_cost = 5013692802290197 / 35184372088832\<rparr>"
proof -
  have h1: "round_double (3 / 2000) = 3458764513820541 / 2305843009213693952"
    by (rule round_double_eqI [where e = "- 10" and m = "6917529027641082"])
       (simp_all add: round_half_even_def)
  have h2: "round_double (19 / 20) = 4278419646001971 / 4503599627370496"
    by (rule round_double_eqI [where e = "- 1" and m = "8556839292003942"])
       (simp_all add: round_half_even_def)
  have h3: "round_double (38 / 25) = 3422735716801577 / 2251799813685248"
    by (rule round_double_eqI [where e = "0" and m = "6845471433603154"])
       (simp_all add: round_half_even_def)
  have h4: "round_double (1 / 20) = 3602879701896397 / 72057594037927936"
    by (rule round_double_eqI [where e = "- 5" and m = "7205759403792794"])
       (simp_all add: round_half_even_def)
  have h5: "f64_mul 100000 (4278419646001971 / 4503599627370496) = 95000"
    unfolding f64_mul_def by (rule round_double_eqI [where e = "16" and m = "6528350289920000"])
       (simp_all add: round_half_even_def)
  have h6: "f64_of_int 62499 = 62499"
    by (simp add: f64_of_int_def round_double_numeral)
  have h7: "f64_mul 62499 (3422735716801577 / 2251799813685248) = 6528245836315361 / 68719476736"
    unfolding f64_mul_def by (rule round_double_eqI [where e = "16" and m = "6528245836315361"])
       (simp_all add: round_half_even_def)
  have h8: "f64_mul (6528245836315361 / 68719476736) (3458764513820541 / 2305843009213693952) = 5013692802290197 / 35184372088832"
    unfolding f64_mul_def by (rule round_double_eqI [where e = "7" and m = "5013692802290197"])
       (simp_all add: round_half_even_def)
  have h9: "f64_add (6528245836315361 / 68719476736) (5013692802290197 / 35184372088832) = 3269019102534917 / 34359738368"
    unfolding f64_add_def by (rule round_double_eqI [where e = "16" and m = "6538038205069834"])
       (simp_all add: round_half_even_def)
  have h10: "f64_sub 100000 (3269019102534917 / 34359738368) = 166954734265083 / 34359738368"
    unfolding f64_sub_def by (rule round_double_eqI [where e = "12" and m = "5342551496482656"])
       (simp_all add: round_half_even_def)
  have h11: "f64_add 0 (5013692802290197 / 35184372088832) = 5013692802290197 / 35184372088832"
    unfolding f64_add_def by (rule round_double_eqI [where e = "7" and m = "5013692802290197"])
       (simp_all add: round_half_even_def)
  have h12: "f64_add (166954734265083 / 34359738368) (6528245836315361 / 68719476736) = 6862155304845527 / 68719476736"
    unfolding f64_add_def by (rule round_double_eqI [where e = "16" and m = "6862155304845527"])
       (simp_all add: round_half_even_def)
  show ?thesis
    by (simp add: default_config_def example_bar_def initial_sim_def backtest_step_f64_def
        stop_loss_hit_f64_def buy_branch_f64_def sell_branch_f64_def record_value_f64_def Let_def
        h1 h2 h3 h4 h5 h6 h7 h8 h9 h10 h11 h12)
qed

text \<open>
  Claim C3, amended to the arithmetic of the program. At any bar that a run reaches
  flat with a BUY signal, the quantity is \<open>\<lfloor>m / price\<rfloor>\<close> for the double
  \<open>m = f64_mul cash max_position_ratio\<close>, as long as that quotient is below
  \<open>2 ^ 50\<close> in absolute value (beyond that the floor division of Python is itself
  rounded). Let \<open>gross\<close> be the double of
  \<open>quantity * price\<close> and \<open>cost\<close> the double of \<open>gross * transaction_cost_rate\<close>. When
  the quantity is at least 1 and the cash covers the double of \<open>gross + cost\<close>, that
  double is deducted from the cash, the position is the quantity entered at this
  price, and a BUY trade is appended. Otherwise cash, position, entry price and
  ledger are as before, and the bar does not raise. A validated price is positive;
  the division needs it to be non-zero.
\<close>

theorem buy_from_flat:
  assumes "backtest_loop_f64 cfg (initial_sim c0) pre = Inr s"
    and "position s = 0"
    and "signal row = ''BUY''"
    and "close row \<noteq> 0"
    and "\<bar>f64_mul (capital s) (max_position_ratio cfg) / close row\<bar> < 2 ^ 50"
    and "q = \<lfloor>f64_mul (capital s) (max_position_ratio cfg) / close row\<rfloor>"
    and "gross = f64_mul (f64_of_int q) (close row)"
    and "cost = f64_mul gross (transaction_cost_rate cfg)"
  shows "\<exists>s'. backtest_loop_f64 cfg (initial_sim c0) (pre @ [row]) = Inr s' \<and>
           (if 1 \<le> q \<and> f64_add gross cost \<le> capital s
            then capital s' = f64_sub (capital s) (f64_add gross cost) \<and>
                 position s' = q \<and> entry_price s' = close row \<and>
                 trades s' = trades s @
                   [\<lparr>timestamp = ts row, action = ''BUY'', price = close row,
                     quantity = q, reason = ''BUY'', transaction_cost = cost\<rparr>]
            else capital s' = capital s \<and> position s' = position s \<and>
                 entry_price s' = entry_price s \<and> trades s' = trades s)"
proof -
  have loop: "backtest_loop_f64 cfg (initial_sim c0) (pre @ [row]) =
     (case buy_branch_f64 cfg s (ts row) (close row) ''BUY'' of
        Inl e \<Rightarrow> Inl e | Inr s' \<Rightarrow> Inr (record_value_f64 (close row) s'))"
    using assms(1-3) by (simp add: backtest_loop_f64_snoc step_f64_buy_flat)
  show ?thesis
  proof (cases "1 \<le> q \<and> f64_add gross cost \<le> capital s")
    case True
    then show ?thesis
      using assms(2,4,6-8) unfolding loop
      by (simp add: buy_branch_f64_def Let_def record_value_f64_def)
  next
    case False
    then show ?thesis
      using assms(2,4,6-8) unfolding loop
      by (auto simp add: buy_branch_f64_def Let_def record_value_f64_def)
  qed
qed

theorem buy_from_flat_witness:
  "(\<exists>s'. backtest_loop_f64 default_config (initial_sim 100000)
            ([] @ [example_bar 1 (round_double (152 / 100)) ''BUY'']) = Inr s' \<and>
        capital s' = 166954734265083 / 34359738368 \<and> position s' = 62499 \<and>
        entry_price s' = 3422735716801577 / 2251799813685248 \<and>
        trades s' =
          [\<lparr>timestamp = 1, action = ''BUY'', price = 3422735716801577 / 2251799813685248, quantity = 62499,
            reason = ''BUY'', transaction_cost = 5013692802290197 / 35184372088832\<rparr>]) \<and>
   (\<exists>s'. backtest_loop_f64 default_config (initial_sim 1)
            ([] @ [example_bar 1 (round_double (152 / 100)) ''BUY'']) = Inr s' \<and>
        capital s' = 1 \<and> position s' = 0 \<and> entry_price s' = 0 \<and> trades s' = [])"
proof
  let ?row = "example_bar 1 (round_double (152 / 100)) ''BUY''"
  have h1: "round_double (3 / 2000) = 3458764513820541 / 2305843009213693952"
    by (rule round_double_eqI [where e = "- 10" and m = "6917529027641082"])
       (simp_all add: round_half_even_def)
  have h2: "round_double (19 / 20) = 4278419646001971 / 4503599627370496"
    by (rule round_double_eqI [where e = "- 1" and m = "8556839292003942"])
       (simp_all add: round_half_even_def)
  have h3: "round_double (38 / 25) = 3422735716801577 / 2251799813685248"
    by (rule round_double_eqI [where e = "0" and m = "6845471433603154"])
       (simp_all add: round_half_even_def)
  have h4: "f64_mul 100000 (4278419646001971 / 4503599627370496) = 95000"
    unfolding f64_mul_def by (rule round_double_eqI [where e = "16" and m = "6528350289920000"])
       (simp_all add: round_half_even_def)
  have h5: "f64_of_int 62499 = 62499"
    by (simp add: f64_of_int_def round_double_numeral)
  have h6: "f64_mul 62499 (3422735716801577 / 2251799813685248) = 6528245836315361 / 68719476736"
    unfolding f64_mul_def by (rule round_double_eqI [where e = "16" and m = "6528245836315361"])
       (simp_all add: round_half_even_def)
  have h7: "f64_mul (6528245836315361 / 68719476736) (3458764513820541 / 2305843009213693952) = 5013692802290197 / 35184372088832"
    unfolding f64_mul_def by (rule round_double_eqI [where e = "7" and m = "5013692802290197"])
       (simp_all add: round_half_even_def)
  have h8: "f64_add (6528245836315361 / 68719476736) (5013692802290197 / 35184372088832) = 3269019102534917 / 34359738368"
    unfolding f64_add_def by (rule round_double_eqI [where e = "16" and m = "6538038205069834"])
       (simp_all add: round_half_even_def)
  have h9: "f64_sub 100000 (3269019102534917 / 34359738368) = 166954734265083 / 34359738368"
    unfolding f64_sub_def by (rule round_double_eqI [where e = "12" and m = "5342551496482656"])
       (simp_all add: round_half_even_def)
  have h10: "f64_add 0 (5013692802290197 / 35184372088832) = 5013692802290197 / 35184372088832"
    unfolding f64_add_def by (rule round_double_eqI [where e = "7" and m = "5013692802290197"])
       (simp_all add: round_half_even_def)
  have h11: "f64_add (166954734265083 / 34359738368) (6528245836315361 / 68719476736) = 6862155304845527 / 68719476736"
    unfolding f64_add_def by (rule round_double_eqI [where e = "16" and m = "6862155304845527"])
       (simp_all add: round_half_even_def)
  have run: "backtest_loop_f64 default_config (initial_sim 100000) [] = Inr (initial_sim 100000)"
    by simp
  have flat: "position (initial_sim 100000) = 0" by (simp add: initial_sim_def)
  have buy: "signal ?row = ''BUY''" by (simp add: example_bar_def)
  have price: "close ?row \<noteq> 0" by (simp add: example_bar_def h1 h2 h3 h4 h5 h6 h7 h8 h9 h10 h11)
  have small: "\<bar>f64_mul (capital (initial_sim 100000)) (max_position_ratio default_config)
                 / close ?row\<bar> < 2 ^ 50"
    by (simp add: default_config_def example_bar_def initial_sim_def
        h1 h2 h3 h4 h5 h6 h7 h8 h9 h10 h11)
  have q: "(62499::int) = \<lfloor>f64_mul (capital (initial_sim 100000))
             (max_position_ratio default_config) / close ?row\<rfloor>"
    by (simp add: default_config_def example_bar_def initial_sim_def
        h1 h2 h3 h4 h5 h6 h7 h8 h9 h10 h11)
  have g: "(6528245836315361 / 68719476736::real) = f64_mul (f64_of_int 62499) (close ?row)"
    by (simp add: example_bar_def h1 h2 h3 h4 h5 h6 h7 h8 h9 h10 h11)
  have c: "(5013692802290197 / 35184372088832::real) =
      f64_mul (6528245836315361 / 68719476736) (transaction_cost_rate default_config)"
    by (simp add: default_config_def h1 h2 h3 h4 h5 h6 h7 h8 h9 h10 h11)
  show "\<exists>s'. backtest_loop_f64 default_config (initial_sim 100000) ([] @ [?row]) = Inr s' \<and>
        capital s' = 166954734265083 / 34359738368 \<and> position s' = 62499 \<and>
        entry_price s' = 3422735716801577 / 2251799813685248 \<and>
        trades s' =
          [\<lparr>timestamp = 1, action = ''BUY'', price = 3422735716801577 / 2251799813685248, quantity = 62499,
            reason = ''BUY'', transaction_cost = 5013692802290197 / 35184372088832\<rparr>]"
    using buy_from_flat [OF run flat buy price small q g c]
    by (simp add: example_bar_def initial_sim_def h1 h2 h3 h4 h5 h6 h7 h8 h9 h10 h11)
next
  let ?row = "example_bar 1 (round_double (152 / 100)) ''BUY''"
  have k1: "round_double (19 / 20) = 4278419646001971 / 4503599627370496"
    by (rule round_double_eqI [where e = "- 1" and m = "8556839292003942"])
       (simp_all add: round_half_even_def)
  have k2: "round_double (38 / 25) = 3422735716801577 / 2251799813685248"
    by (rule round_double_eqI [where e = "0" and m = "6845471433603154"])
       (simp_all add: round_half_even_def)
  have k3: "f64_mul 1 (4278419646001971 / 4503599627370496) = 4278419646001971 / 4503599627370496"
    unfolding f64_mul_def by (rule round_double_eqI [where e = "- 1" and m = "8556839292003942"])
       (simp_all add: round_half_even_def)
  have run: "backtest_loop_f64 default_config (initial_sim 1) [] = Inr (initial_sim 1)"
    by simp
  have flat: "position (initial_sim 1) = 0" by (simp add: initial_sim_def)
  have buy: "signal ?row = ''BUY''" by (simp add: example_bar_def)
  have price: "close ?row \<noteq> 0" by (simp add: example_bar_def k1 k2 k3)
  have small: "\<bar>f64_mul (capital (initial_sim 1)) (max_position_ratio default_config)
                 / close ?row\<bar> < 2 ^ 50"
    by (simp add: default_config_def example_bar_def initial_sim_def
        k1 k2 k3)
  have q: "(0::int) = \<lfloor>f64_mul (capital (initial_sim 1))
             (max_position_ratio default_config) / close ?row\<rfloor>"
    by (simp add: default_config_def example_bar_def initial_sim_def
        k1 k2 k3)
  have g: "(0::real) = f64_mul (f64_of_int 0) (close ?row)"
    by (simp add: f64_mul_def f64_of_int_def round_double_0)
  have c: "(0::real) = f64_mul 0 (transaction_cost_rate default_config)"
    by (simp add: f64_mul_def round_double_0)
  show "\<exists>s'. backtest_loop_f64 default_config (initial_sim 1) ([] @ [?row]) = Inr s' \<and>
        capital s' = 1 \<and> position s' = 0 \<and> entry_price s' = 0 \<and> trades s' = []"
    using buy_from_flat [OF run flat buy price small q g c]
    by (simp add: initial_sim_def)
qed

subsection \<open>The ledger of a run\<close>

text \<open>From here on the run as a whole, in exact arithmetic.\<close>

lemma round_trips_append:
  "round_trips xs \<Longrightarrow> round_trips ys \<Longrightarrow> round_trips (xs @ ys)"
  by (induction xs rule: round_trips.induct) simp_all

lemma round_trips_balanced:
  "round_trips tr \<Longrightarrow>
     open_position tr = 0 \<and> count_action ''BUY'' tr = count_action ''SELL'' tr"
  by (induction tr rule: round_trips.induct) (simp_all add: count_action_def)

lemma step_total:
  "close row \<noteq> 0 \<Longrightarrow> \<exists>s'. backtest_step cfg s row = Inr s'"
  by (simp add: backtest_step_def buy_branch_def Let_def)

lemma loop_total:
  "\<forall>row\<in>set df. close row \<noteq> 0 \<Longrightarrow> \<exists>s'. backtest_loop cfg s df = Inr s'"
proof (induction df arbitrary: s)
  case Nil
  then show ?case by simp
next
  case (Cons row df)
  then obtain s1 where "backtest_step cfg s row = Inr s1"
    using step_total [of row cfg s] by auto
  then show ?case using Cons by simp
qed

lemma loop_invariant:
  assumes "backtest_loop cfg s df = Inr s'"
    and "P s"
    and "\<And>s row s'. P s \<Longrightarrow> row \<in> set df \<Longrightarrow> backtest_step cfg s row = Inr s' \<Longrightarrow> P s'"
  shows "P s'"
  using assms
proof (induction df arbitrary: s)
  case Nil
  then show ?case by simp
next
  case (Cons row df)
  from Cons.prems(1) obtain s1 where s1: "backtest_step cfg s row = Inr s1"
    and rest: "backtest_loop cfg s1 df = Inr s'"
    by (auto split: sum.splits)
  have "P s1" using Cons.prems(2,3) s1 by (meson list.set_intros(1))
  then show ?case using Cons.IH [OF rest] Cons.prems(3) by (meson list.set_intros(2))
qed

lemma buy_branch_cases:
  assumes "buy_branch cfg s t p why = Inr s'"
  obtains (skip) "s' = s"
  | (fill) q where "q = \<lfloor>capital s * max_position_ratio cfg / p\<rfloor>" "0 < q" "p \<noteq> 0"
      "of_int q * p * (1 + transaction_cost_rate cfg) \<le> capital s"
      "s' = s\<lparr>capital := capital s - of_int q * p * (1 + transaction_cost_rate cfg),
              position := q,
              entry_price := p,
              total_transaction_cost :=
                total_transaction_cost s + of_int q * p * transaction_cost_rate cfg,
              trades := trades s @
                [\<lparr>timestamp = t, action = ''BUY'', price = p, quantity = q, reason = why,
                  transaction_cost = of_int q * p * transaction_cost_rate cfg\<rparr>]\<rparr>"
  using assms
  by (auto simp add: buy_branch_def Let_def algebra_simps split: if_splits)

text \<open>The three outcomes of one bar.\<close>

lemma step_cases:
  assumes "backtest_step cfg s row = Inr s'"
  obtains (hold) "s' = record_value (close row) s"
  | (buy) s1 where "position s = 0" "buy_branch cfg s (ts row) (close row) ''BUY'' = Inr s1"
      "s' = record_value (close row) s1"
  | (sell) why where "0 < position s"
      "s' = record_value (close row) (sell_branch cfg s (ts row) (close row) why)"
  using assms
  by (auto simp add: backtest_step_def Let_def stop_loss_hit_def split: if_splits sum.splits)

lemma step_ledger_inv:
  assumes "ledger_inv s" and "backtest_step cfg s row = Inr s'"
  shows "ledger_inv s'"
  using assms(2)
proof (cases rule: step_cases)
  case hold
  then show ?thesis using assms(1) by (simp add: ledger_inv_def record_value_def)
next
  case (buy s1)
  have rt: "round_trips (trades s)" using assms(1) buy(1) by (simp add: ledger_inv_def)
  from buy(2) show ?thesis
  proof (cases rule: buy_branch_cases)
    case skip
    then show ?thesis using assms(1) buy(3) by (simp add: ledger_inv_def record_value_def)
  next
    case (fill q)
    then show ?thesis using rt buy(3) by (simp add: ledger_inv_def record_value_def)
  qed
next
  case (sell why)
  then obtain pairs b where tr: "trades s = pairs @ [b]" "round_trips pairs"
      "action b = ''BUY''" "quantity b = position s"
    using assms(1) by (auto simp add: ledger_inv_def)
  have "round_trips (pairs @ [b, \<lparr>timestamp = ts row, action = ''SELL'', price = close row,
                quantity = position s, reason = why,
                transaction_cost = of_int (position s) * close row * transaction_cost_rate cfg\<rparr>])"
    using tr sell(1) by (intro round_trips_append) simp_all
  then show ?thesis using sell tr
    by (simp add: ledger_inv_def record_value_def sell_branch_def Let_def)
qed

lemma initial_ledger_inv: "ledger_inv (initial_sim c0)"
  by (simp add: ledger_inv_def initial_sim_def)

lemma loop_ledger_inv:
  "backtest_loop cfg (initial_sim c0) df = Inr s \<Longrightarrow> ledger_inv s"
  by (erule loop_invariant [where P = ledger_inv])
     (simp_all add: initial_ledger_inv step_ledger_inv)

lemma loop_empty_flat:
  "backtest_loop cfg (initial_sim c0) [] = Inr s \<Longrightarrow> position s = 0"
  by (auto simp add: initial_sim_def)

lemma final_liquidation_ledger:
  assumes "ledger_inv s" and "final_liquidation cfg df s = Inr s'"
  shows "round_trips (trades s')"
proof (cases "0 < position s")
  case False
  then show ?thesis using assms by (auto simp add: ledger_inv_def final_liquidation_def)
next
  case True
  then obtain pairs b where tr: "trades s = pairs @ [b]" "round_trips pairs"
      "action b = ''BUY''" "quantity b = position s"
    using assms(1) by (auto simp add: ledger_inv_def)
  have "\<And>t c. round_trips (pairs @ [b, \<lparr>timestamp = t, action = ''SELL'', price = close (last df),
                quantity = position s, reason = ''FINAL_SELL'', transaction_cost = c\<rparr>])"
    using tr True by (intro round_trips_append) simp_all
  then show ?thesis using True tr assms(2)
    by (auto simp add: final_liquidation_def Let_def split: if_splits)
qed

lemma final_liquidation_total:
  assumes "backtest_loop cfg (initial_sim c0) df = Inr s"
  shows "\<exists>s'. final_liquidation cfg df s = Inr s'"
proof (cases "df = []")
  case True
  then have "position s = 0" using assms loop_empty_flat by blast
  then show ?thesis by (simp add: final_liquidation_def)
next
  case False
  then show ?thesis by (simp add: final_liquidation_def Let_def)
qed

lemma execute_backtest_Inr:
  assumes "backtest_loop cfg (initial_sim c0) df = Inr s1"
    and "final_liquidation cfg df s1 = Inr s"
    and "c0 \<noteq> 0"
  shows "\<exists>r. execute_backtest cfg df tick c0 sd ed = Inr r \<and>
           BacktestResult.trades r = trades s \<and>
           final_capital r = capital s \<and>
           total_return_pct r = (capital s - c0) / c0 * 100 \<and>
           total_trades r =
             min (count_action ''BUY'' (trades s)) (count_action ''SELL'' (trades s)) \<and>
           win_rate r = win_rate_of (winning_trades r) (losing_trades r) \<and>
           max_drawdown r = calculate_max_drawdown (portfolio_values s) \<and>
           sharpe_ratio r = calculate_sharpe_ratio cfg (portfolio_values s)"
  using assms by (simp add: execute_backtest_def Let_def)

lemma execute_backtest_runs:
  assumes "execute_backtest cfg df tick c0 sd ed = Inr r"
  obtains s1 s where "backtest_loop cfg (initial_sim c0) df = Inr s1"
    and "final_liquidation cfg df s1 = Inr s" and "c0 \<noteq> 0"
  using assms by (auto simp add: execute_backtest_def split: sum.splits if_splits)

text \<open>
  Claim C4. On a validated series (every close positive) the loop and the final
  liquidation complete, and the ledger they leave is a sequence of round trips: every
  BUY is followed by the SELL of the same quantity, so the shares bought less the
  shares sold are 0 and the run ends flat, with as many BUY as SELL trades. Unless
  the capital is 0 (the return's division raises there) the run returns a result with
  this ledger, and its \<open>total_trades\<close> is the minimum of the two counts. The
  position is read off the ledger: the final block sells the whole position and
  leaves the loop's variable, which is never read again, as it was.
\<close>

theorem run_ends_flat:
  assumes "\<forall>row\<in>set df. 0 < close row"
  shows "\<exists>s1 s. backtest_loop cfg (initial_sim c0) df = Inr s1 \<and>
           final_liquidation cfg df s1 = Inr s \<and>
           round_trips (trades s) \<and>
           open_position (trades s) = 0 \<and>
           count_action ''BUY'' (trades s) = count_action ''SELL'' (trades s) \<and>
           (c0 \<noteq> 0 \<longrightarrow>
             (\<exists>r. execute_backtest cfg df tick c0 sd ed = Inr r \<and>
                  BacktestResult.trades r = trades s \<and>
                  total_trades r =
                    min (count_action ''BUY'' (BacktestResult.trades r))
                        (count_action ''SELL'' (BacktestResult.trades r))))"
proof -
  have "\<forall>row\<in>set df. close row \<noteq> 0" using assms by auto
  then obtain s1 where s1: "backtest_loop cfg (initial_sim c0) df = Inr s1"
    using loop_total by blast
  then obtain s where s: "final_liquidation cfg df s1 = Inr s"
    using final_liquidation_total by blast
  have rt: "round_trips (trades s)"
    using loop_ledger_inv [OF s1] s by (rule final_liquidation_ledger)
  have res: "\<exists>r. execute_backtest cfg df tick c0 sd ed = Inr r \<and>
                  BacktestResult.trades r = trades s \<and>
                  total_trades r =
                    min (count_action ''BUY'' (BacktestResult.trades r))
                        (count_action ''SELL'' (BacktestResult.trades r))"
    if nonzero: "c0 \<noteq> 0"
  proof -
    obtain r where "execute_backtest cfg df tick c0 sd ed = Inr r"
      "BacktestResult.trades r = trades s"
      "total_trades r =
         min (count_action ''BUY'' (trades s)) (count_action ''SELL'' (trades s))"
      using execute_backtest_Inr [OF s1 s nonzero] by blast
    then show ?thesis by simp
  qed
  show ?thesis using s1 s rt round_trips_balanced [OF rt] res by blast
qed

theorem run_ends_flat_witness:
  "\<exists>s1 s. backtest_loop (example_config 0 1) (initial_sim 10000)
               [example_bar 1 100 ''BUY'', example_bar 2 110 ''HOLD''] = Inr s1 \<and>
          final_liquidation (example_config 0 1)
               [example_bar 1 100 ''BUY'', example_bar 2 110 ''HOLD''] s1 = Inr s \<and>
          round_trips (trades s) \<and>
          open_position (trades s) = 0 \<and>
          count_action ''BUY'' (trades s) = count_action ''SELL'' (trades s) \<and>
          (\<exists>r. execute_backtest (example_config 0 1)
                  [example_bar 1 100 ''BUY'', example_bar 2 110 ''HOLD''] ''AAPL'' 10000 0 1
                  = Inr r \<and>
               BacktestResult.trades r = trades s \<and>
               total_trades r =
                 min (count_action ''BUY'' (BacktestResult.trades r))
                     (count_action ''SELL'' (BacktestResult.trades r)))"
  using run_ends_flat [of "[example_bar 1 100 ''BUY'', example_bar 2 110 ''HOLD'']"
      "example_config 0 1" 10000 "''AAPL''" 0 1]
  by (simp add: example_bar_def)

lemma step_cash_inv:
  assumes "cash_inv s" and "transaction_cost_rate cfg \<le> 1" and "0 < close row"
    and "backtest_step cfg s row = Inr s'"
  shows "cash_inv s'"
  using assms(4)
proof (cases rule: step_cases)
  case hold
  then show ?thesis using assms(1) by (simp add: cash_inv_def record_value_def)
next
  case (buy s1)
  from buy(2) show ?thesis
  proof (cases rule: buy_branch_cases)
    case skip
    then show ?thesis using assms(1) buy(3) by (simp add: cash_inv_def record_value_def)
  next
    case (fill q)
    then show ?thesis using buy(3) by (simp add: cash_inv_def record_value_def)
  qed
next
  case (sell why)
  have "0 \<le> of_int (position s) * close row * (1 - transaction_cost_rate cfg)"
    using sell(1) assms(2,3) by simp
  then have "0 \<le> capital s + (of_int (position s) * close row
                - of_int (position s) * close row * transaction_cost_rate cfg)"
    using assms(1) by (simp add: cash_inv_def algebra_simps)
  then show ?thesis using sell(2)
    by (simp add: cash_inv_def record_value_def sell_branch_def Let_def)
qed

lemma loop_cash_inv:
  assumes "backtest_loop cfg (initial_sim c0) df = Inr s"
    and "0 \<le> c0" and "transaction_cost_rate cfg \<le> 1" and "\<forall>row\<in>set df. 0 < close row"
  shows "cash_inv s"
  using assms(1)
proof (rule loop_invariant [where P = cash_inv])
  show "cash_inv (initial_sim c0)" using assms(2) by (simp add: cash_inv_def initial_sim_def)
next
  fix s row s'
  assume "cash_inv s" "row \<in> set df" "backtest_step cfg s row = Inr s'"
  then show "cash_inv s'" using assms(3,4) step_cash_inv by blast
qed

lemma final_liquidation_cash:
  assumes "cash_inv s" and "transaction_cost_rate cfg \<le> 1" and "\<forall>row\<in>set df. 0 < close row"
    and "final_liquidation cfg df s = Inr s'"
  shows "0 \<le> capital s'"
proof (cases "0 < position s")
  case False
  then show ?thesis using assms(1,4) by (auto simp add: final_liquidation_def cash_inv_def)
next
  case True
  then have ne: "df \<noteq> []" using assms(4) by (auto simp add: final_liquidation_def)
  then have "0 < close (last df)" using assms(3) by simp
  then have "0 \<le> of_int (position s) * close (last df) * (1 - transaction_cost_rate cfg)"
    using True assms(2) by simp
  then have "0 \<le> capital s + (of_int (position s) * close (last df)
                - of_int (position s) * close (last df) * transaction_cost_rate cfg)"
    using assms(1) by (simp add: cash_inv_def algebra_simps)
  then show ?thesis using True ne assms(4)
    by (auto simp add: final_liquidation_def Let_def)
qed

text \<open>
  Claim C5, as stated, fails: a SELL adds \<open>position * price * (1 - rate)\<close> to the
  cash, which is negative for a rate above 1, and nothing bounds the rate. With a rate
  of 2 and a position ratio of 3/10, a capital of 10000 buys 30 shares at 100
  (cost 9000) and the sale at 100 takes 3000 away: the cash is -2000.
\<close>

theorem cash_negative_counterexample:
  "(0::real) \<le> 10000 \<and>
   0 < close (example_bar 1 100 ''BUY'') \<and> 0 < close (example_bar 2 100 ''SELL'') \<and>
   backtest_loop (example_config 2 (3 / 10)) (initial_sim 10000)
     [example_bar 1 100 ''BUY'', example_bar 2 100 ''SELL''] =
   Inr \<lparr>capital = - 2000, position = 0, entry_price = 0,
        trades =
          [\<lparr>timestamp = 1, action = ''BUY'', price = 100, quantity = 30,
            reason = ''BUY'', transaction_cost = 6000\<rparr>,
           \<lparr>timestamp = 2, action = ''SELL'', price = 100, quantity = 30,
            reason = ''SELL'', transaction_cost = 6000\<rparr>],
        portfolio_values = [4000, - 2000], total_transaction_cost = 12000\<rparr>"
  by (simp add: example_config_def example_bar_def initial_sim_def backtest_step_def
      stop_loss_hit_def buy_branch_def sell_branch_def record_value_def Let_def)

text \<open>
  Claim C5, amended. With an initial capital of at least 0, positive prices and a
  transaction cost rate of at most 1, the cash is not negative after any number of
  bars, nor after the final liquidation.
\<close>

theorem cash_never_negative:
  assumes "0 \<le> c0" and "transaction_cost_rate cfg \<le> 1"
    and "\<forall>row\<in>set df. 0 < close row"
  shows "(\<exists>s. backtest_loop cfg (initial_sim c0) (take n df) = Inr s \<and> 0 \<le> capital s) \<and>
         (\<exists>s s'. backtest_loop cfg (initial_sim c0) df = Inr s \<and>
                  final_liquidation cfg df s = Inr s' \<and> 0 \<le> capital s')"
proof
  have pos: "\<forall>row\<in>set (take n df). 0 < close row"
    using assms(3) by (meson in_set_takeD)
  then have "\<forall>row\<in>set (take n df). close row \<noteq> 0" by auto
  then obtain s where s: "backtest_loop cfg (initial_sim c0) (take n df) = Inr s"
    using loop_total by blast
  then have "cash_inv s" using assms(1,2) pos by (rule loop_cash_inv)
  then show "\<exists>s. backtest_loop cfg (initial_sim c0) (take n df) = Inr s \<and> 0 \<le> capital s"
    using s by (auto simp add: cash_inv_def)
next
  have "\<forall>row\<in>set df. close row \<noteq> 0" using assms(3) by auto
  then obtain s where s: "backtest_loop cfg (initial_sim c0) df = Inr s"
    using loop_total by blast
  then obtain s' where s': "final_liquidation cfg df s = Inr s'"
    using final_liquidation_total by blast
  have "cash_inv s" using s assms by (rule loop_cash_inv)
  then have "0 \<le> capital s'" using assms(2,3) s' by (rule final_liquidation_cash)
  then show "\<exists>s s'. backtest_loop cfg (initial_sim c0) df = Inr s \<and>
                  final_liquidation cfg df s = Inr s' \<and> 0 \<le> capital s'"
    using s s' by blast
qed


theorem cash_never_negative_witness:
  "(\<exists>s. backtest_loop (example_config (1 / 100) (1 / 2)) (initial_sim 10000)
           (take 1 [example_bar 1 100 ''BUY'', example_bar 2 110 ''SELL'']) = Inr s \<and>
        0 \<le> capital s) \<and>
   (\<exists>s s'. backtest_loop (example_config (1 / 100) (1 / 2)) (initial_sim 10000)
              [example_bar 1 100 ''BUY'', example_bar 2 110 ''SELL''] = Inr s \<and>
           final_liquidation (example_config (1 / 100) (1 / 2))
              [example_bar 1 100 ''BUY'', example_bar 2 110 ''SELL''] s = Inr s' \<and>
           0 \<le> capital s')"
  using cash_never_negative [of 10000 "example_config (1 / 100) (1 / 2)"
      "[example_bar 1 100 ''BUY'', example_bar 2 110 ''SELL'']" 1]
  by (simp add: example_config_def example_bar_def)

subsection \<open>The stop-loss scenario\<close>

text \<open>
  Claim C2. Three bars with closes 100, 95, 80 and signals BUY, HOLD, HOLD, a stop-loss
  ratio of 0.05, no transaction cost, a position ratio of 1 and a capital of 10000:
  the core buys 100 shares at 100 on the first bar, the stop-loss fires on the second
  (95 is not above 100 * 0.95), selling the 100 shares at 95, and the run ends with a
  capital of 9500 and exactly these two trades. The other fields of the rows, the
  risk-free rate, the ticker and the dates are arbitrary.
\<close>

theorem stop_loss_scenario:
  "\<exists>r. execute_backtest
          \<lparr>transaction_cost_rate = 0, max_position_ratio = 1, stop_loss_ratio = 5 / 100,
           risk_free_rate = rf\<rparr>
          [b1\<lparr>close := 100, signal := ''BUY''\<rparr>, b2\<lparr>close := 95, signal := ''HOLD''\<rparr>,
           b3\<lparr>close := 80, signal := ''HOLD''\<rparr>] tick 10000 sd ed = Inr r \<and>
        final_capital r = 9500 \<and>
        BacktestResult.trades r =
          [\<lparr>timestamp = ts b1, action = ''BUY'', price = 100, quantity = 100,
            reason = ''BUY'', transaction_cost = 0\<rparr>,
           \<lparr>timestamp = ts b2, action = ''SELL'', price = 95, quantity = 100,
            reason = ''STOP_LOSS'', transaction_cost = 0\<rparr>]"
  by (simp add: execute_backtest_def initial_sim_def backtest_step_def stop_loss_hit_def
      buy_branch_def sell_branch_def record_value_def final_liquidation_def Let_def)

subsection \<open>The buy-and-hold baseline\<close>



subsection \<open>Degenerate statistics\<close>












text \<open>
  With two points there is one return, whose deviation is NaN: the test
  \<^verbatim>\<open>returns.std() == 0\<close> is false and the ratio is NaN.
\<close>

lemma sharpe_two_points: "calculate_sharpe_ratio cfg [a, b] = None"
  by (simp add: calculate_sharpe_ratio_def pct_change_f64_def float_div_f64_def dropna_def
      series_std_f64_def sample_std_f64_def)




text \<open>
  The curve 100, 110, 121, 133.1 of 10 percent at every bar: here the doubles of the
  returns differ in the last places, and the ratio returned is \<^verbatim>\<open>1.2356e16\<close>.
\<close>

lemma sharpe_decimal_growth_example:
  "series_std (dropna (pct_change [100, 110, 121, 1331 / 10])) = Some 0 \<and>
   calculate_sharpe_ratio default_config [100, 110, 121, round_double (1331 / 10)] =
     Some 12356049656517038"
proof
  show "series_std (dropna (pct_change [100, 110, 121, 1331 / 10])) = Some 0"
    by (simp add: series_std_def dropna_def pct_change_def float_div_def sample_std_def mean_def)
next
  have h1: "round_double (3 / 100) = 1080863910568919 / 36028797018963968"
    by (rule round_double_eqI [where e = "- 6" and m = "8646911284551352"])
       (simp_all add: round_half_even_def)
  have h2: "round_double (1331 / 10) = 4683039925023539 / 35184372088832"
    by (rule round_double_eqI [where e = "7" and m = "4683039925023539"])
       (simp_all add: round_half_even_def)
  have h3: "f64_div 110 100 = 2476979795053773 / 2251799813685248"
    unfolding f64_div_def by (rule round_double_eqI [where e = "0" and m = "4953959590107546"])
       (simp_all add: round_half_even_def)
  have h4: "f64_sub (2476979795053773 / 2251799813685248) 1 = 225179981368525 / 2251799813685248"
    unfolding f64_sub_def by (rule round_double_eqI [where e = "- 4" and m = "7205759403792800"])
       (simp_all add: round_half_even_def)
  have h5: "f64_div 121 110 = 2476979795053773 / 2251799813685248"
    unfolding f64_div_def by (rule round_double_eqI [where e = "0" and m = "4953959590107546"])
       (simp_all add: round_half_even_def)
  have h6: "f64_div (4683039925023539 / 35184372088832) 121 = 4953959590107545 / 4503599627370496"
    unfolding f64_div_def by (rule round_double_eqI [where e = "0" and m = "4953959590107545"])
       (simp_all add: round_half_even_def)
  have h7: "f64_sub (4953959590107545 / 4503599627370496) 1 = 450359962737049 / 4503599627370496"
    unfolding f64_sub_def by (rule round_double_eqI [where e = "- 4" and m = "7205759403792784"])
       (simp_all add: round_half_even_def)
  have h8: "f64_add 0 (225179981368525 / 2251799813685248) = 225179981368525 / 2251799813685248"
    unfolding f64_add_def by (rule round_double_eqI [where e = "- 4" and m = "7205759403792800"])
       (simp_all add: round_half_even_def)
  have h9: "f64_add (225179981368525 / 2251799813685248) (225179981368525 / 2251799813685248) = 225179981368525 / 1125899906842624"
    unfolding f64_add_def by (rule round_double_eqI [where e = "- 3" and m = "7205759403792800"])
       (simp_all add: round_half_even_def)
  have h10: "f64_add (225179981368525 / 1125899906842624) (450359962737049 / 4503599627370496) = 1351079888211149 / 4503599627370496"
    unfolding f64_add_def by (rule round_double_eqI [where e = "- 2" and m = "5404319552844596"])
       (simp_all add: round_half_even_def)
  have h11: "f64_div (1351079888211149 / 4503599627370496) 3 = 7205759403792795 / 72057594037927936"
    unfolding f64_div_def by (rule round_double_eqI [where e = "- 4" and m = "7205759403792795"])
       (simp_all add: round_half_even_def)
  have h12: "f64_sub (7205759403792795 / 72057594037927936) (225179981368525 / 2251799813685248) = - (5 / 72057594037927936)"
    unfolding f64_sub_def by (rule round_double_eqI [where e = "- 54" and m = "- 5629499534213120"])
       (simp_all add: round_half_even_def)
  have h13: "f64_mul (- (5 / 72057594037927936)) (- (5 / 72057594037927936)) = 25 / 5192296858534827628530496329220096"
    unfolding f64_mul_def by (rule round_double_eqI [where e = "- 108" and m = "7036874417766400"])
       (simp_all add: round_half_even_def)
  have h14: "f64_sub (7205759403792795 / 72057594037927936) (450359962737049 / 4503599627370496) = 11 / 72057594037927936"
    unfolding f64_sub_def by (rule round_double_eqI [where e = "- 53" and m = "6192449487634432"])
       (simp_all add: round_half_even_def)
  have h15: "f64_mul (11 / 72057594037927936) (11 / 72057594037927936) = 121 / 5192296858534827628530496329220096"
    unfolding f64_mul_def by (rule round_double_eqI [where e = "- 106" and m = "8514618045497344"])
       (simp_all add: round_half_even_def)
  have h16: "f64_add 0 (25 / 5192296858534827628530496329220096) = 25 / 5192296858534827628530496329220096"
    unfolding f64_add_def by (rule round_double_eqI [where e = "- 108" and m = "7036874417766400"])
       (simp_all add: round_half_even_def)
  have h17: "f64_add (25 / 5192296858534827628530496329220096) (25 / 5192296858534827628530496329220096) = 25 / 2596148429267413814265248164610048"
    unfolding f64_add_def by (rule round_double_eqI [where e = "- 107" and m = "7036874417766400"])
       (simp_all add: round_half_even_def)
  have h18: "f64_add (25 / 2596148429267413814265248164610048) (121 / 5192296858534827628530496329220096) = 171 / 5192296858534827628530496329220096"
    unfolding f64_add_def by (rule round_double_eqI [where e = "- 105" and m = "6016527627190272"])
       (simp_all add: round_half_even_def)
  have h19: "f64_div (171 / 5192296858534827628530496329220096) 2 = 171 / 10384593717069655257060992658440192"
    unfolding f64_div_def by (rule round_double_eqI [where e = "- 106" and m = "6016527627190272"])
       (simp_all add: round_half_even_def)
  have h20: "f64_sqrt (171 / 10384593717069655257060992658440192) = 5205384863761603 / 40564819207303340847894502572032"
    unfolding f64_sqrt_def by (rule round_double_sqrt_eqI [where e = "- 53" and m = "5205384863761603"])
       (simp_all add: power2_eq_square)
  have h21: "f64_div (1080863910568919 / 36028797018963968) 252 = 2196040961155899 / 18446744073709551616"
    unfolding f64_div_def by (rule round_double_eqI [where e = "- 14" and m = "8784163844623596"])
       (simp_all add: round_half_even_def)
  have h22: "f64_sub (225179981368525 / 2251799813685248) (2196040961155899 / 18446744073709551616) = 7197181118788285 / 72057594037927936"
    unfolding f64_sub_def by (rule round_double_eqI [where e = "- 4" and m = "7197181118788285"])
       (simp_all add: round_half_even_def)
  have h23: "f64_sub (450359962737049 / 4503599627370496) (2196040961155899 / 18446744073709551616) = 7197181118788269 / 72057594037927936"
    unfolding f64_sub_def by (rule round_double_eqI [where e = "- 4" and m = "7197181118788269"])
       (simp_all add: round_half_even_def)
  have h24: "f64_add 0 (7197181118788285 / 72057594037927936) = 7197181118788285 / 72057594037927936"
    unfolding f64_add_def by (rule round_double_eqI [where e = "- 4" and m = "7197181118788285"])
       (simp_all add: round_half_even_def)
  have h25: "f64_add (7197181118788285 / 72057594037927936) (7197181118788285 / 72057594037927936) = 7197181118788285 / 36028797018963968"
    unfolding f64_add_def by (rule round_double_eqI [where e = "- 3" and m = "7197181118788285"])
       (simp_all add: round_half_even_def)
  have h26: "f64_add (7197181118788285 / 36028797018963968) (7197181118788269 / 72057594037927936) = 2698942919545605 / 9007199254740992"
    unfolding f64_add_def by (rule round_double_eqI [where e = "- 2" and m = "5397885839091210"])
       (simp_all add: round_half_even_def)
  have h27: "f64_div (2698942919545605 / 9007199254740992) 3 = 899647639848535 / 9007199254740992"
    unfolding f64_div_def by (rule round_double_eqI [where e = "- 4" and m = "7197181118788280"])
       (simp_all add: round_half_even_def)
  have h28: "f64_div (899647639848535 / 9007199254740992) (5205384863761603 / 40564819207303340847894502572032) = 1556715932300435 / 2"
    unfolding f64_div_def by (rule round_double_eqI [where e = "49" and m = "6226863729201740"])
       (simp_all add: round_half_even_def)
  have h29: "f64_sqrt 252 = 8936553463969119 / 562949953421312"
    unfolding f64_sqrt_def by (rule round_double_sqrt_eqI [where e = "3" and m = "8936553463969119"])
       (simp_all add: power2_eq_square)
  have h30: "f64_mul (1556715932300435 / 2) (8936553463969119 / 562949953421312) = 12356049656517038"
    unfolding f64_mul_def by (rule round_double_eqI [where e = "53" and m = "6178024828258519"])
       (simp_all add: round_half_even_def)
  have returns: "dropna (pct_change_f64 [100, 110, 121, round_double (1331 / 10)]) =
      [Finite (225179981368525 / 2251799813685248),
       Finite (225179981368525 / 2251799813685248),
       Finite (450359962737049 / 4503599627370496)]"
    by (simp add: pct_change_f64_def dropna_def float_div_f64_def
        h1 h2 h3 h4 h5 h6 h7 h8 h9 h10 h11 h12 h13 h14
        h15 h16 h17 h18 h19 h20 h21 h22 h23 h24 h25 h26 h27 h28
        h29 h30)
  have deviation: "series_std_f64
      [Finite (225179981368525 / 2251799813685248),
       Finite (225179981368525 / 2251799813685248),
       Finite (450359962737049 / 4503599627370496)] =
      Some (5205384863761603 / 40564819207303340847894502572032)"
    by (simp add: series_std_f64_def sample_std_f64_def mean_f64_def sum_f64_def Let_def
        h1 h2 h3 h4 h5 h6 h7 h8 h9 h10 h11 h12 h13 h14
        h15 h16 h17 h18 h19 h20 h21 h22 h23 h24 h25 h26 h27 h28
        h29 h30)
  show "calculate_sharpe_ratio default_config [100, 110, 121, round_double (1331 / 10)] =
     Some 12356049656517038"
    unfolding calculate_sharpe_ratio_def Let_def returns deviation
    by (simp add: default_config_def mean_f64_def sum_f64_def
        h1 h2 h3 h4 h5 h6 h7 h8 h9 h10 h11 h12 h13 h14
        h15 h16 h17 h18 h19 h20 h21 h22 h23 h24 h25 h26 h27 h28
        h29 h30)
qed





subsection \<open>Sensitivity to the cost rate\<close>

lemma step_flow_inv:
  assumes "flow_inv c0 (transaction_cost_rate cfg) s" and "0 < close row"
    and "backtest_step cfg s row = Inr s'"
  shows "flow_inv c0 (transaction_cost_rate cfg) s'"
  using assms(3)
proof (cases rule: step_cases)
  case hold
  then show ?thesis using assms(1) by (simp add: flow_inv_def record_value_def)
next
  case (buy s1)
  from buy(2) show ?thesis
  proof (cases rule: buy_branch_cases)
    case skip
    then show ?thesis using assms(1) buy(3) by (simp add: flow_inv_def record_value_def)
  next
    case (fill q)
    then show ?thesis using assms(1,2) buy(3)
      by (simp add: flow_inv_def record_value_def cash_flow_def notional_def)
  qed
next
  case (sell why)
  then show ?thesis using assms(1,2)
    by (simp add: flow_inv_def record_value_def sell_branch_def Let_def cash_flow_def
        notional_def algebra_simps)
qed

lemma final_liquidation_flow_inv:
  assumes "flow_inv c0 (transaction_cost_rate cfg) s" and "\<forall>row\<in>set df. 0 < close row"
    and "final_liquidation cfg df s = Inr s'"
  shows "flow_inv c0 (transaction_cost_rate cfg) s'"
proof (cases "0 < position s")
  case False
  then show ?thesis using assms(1,3) by (simp add: final_liquidation_def)
next
  case True
  then have ne: "df \<noteq> []" using assms(3) by (auto simp add: final_liquidation_def)
  then have "0 < close (last df)" using assms(2) by simp
  then show ?thesis using True ne assms(1,3)
    by (auto simp add: final_liquidation_def Let_def flow_inv_def cash_flow_def notional_def
        algebra_simps)
qed

lemma run_flow_inv:
  assumes "backtest_loop cfg (initial_sim c0) df = Inr s1"
    and "final_liquidation cfg df s1 = Inr s"
    and "\<forall>row\<in>set df. 0 < close row"
  shows "flow_inv c0 (transaction_cost_rate cfg) s"
proof -
  have "flow_inv c0 (transaction_cost_rate cfg) s1"
    using assms(1)
  proof (rule loop_invariant [where P = "flow_inv c0 (transaction_cost_rate cfg)"])
    show "flow_inv c0 (transaction_cost_rate cfg) (initial_sim c0)"
      by (simp add: flow_inv_def initial_sim_def)
  next
    fix s row s'
    assume "flow_inv c0 (transaction_cost_rate cfg) s" "row \<in> set df"
      "backtest_step cfg s row = Inr s'"
    then show "flow_inv c0 (transaction_cost_rate cfg) s'"
      using assms(3) step_flow_inv by blast
  qed
  then show ?thesis using assms(3,2) by (rule final_liquidation_flow_inv)
qed

lemma step_idle_inv:
  assumes "idle_inv s" and "0 \<le> transaction_cost_rate cfg" and "0 < close row"
    and "backtest_step cfg s row = Inr s'"
  shows "idle_inv s'"
  using assms(4)
proof (cases rule: step_cases)
  case hold
  then show ?thesis using assms(1) by (simp add: idle_inv_def record_value_def)
next
  case (buy s1)
  from buy(2) show ?thesis
  proof (cases rule: buy_branch_cases)
    case skip
    then show ?thesis using assms(1) buy(3) by (simp add: idle_inv_def record_value_def)
  next
    case (fill q)
    have "0 < of_int q * close row * (1 + transaction_cost_rate cfg)"
      using fill(2) assms(2,3) by simp
    then have False using fill(4) assms(1) by (simp add: idle_inv_def)
    then show ?thesis ..
  qed
next
  case (sell why)
  then show ?thesis using assms(1) by (simp add: idle_inv_def)
qed

lemma run_idle:
  assumes "backtest_loop cfg (initial_sim c0) df = Inr s1"
    and "final_liquidation cfg df s1 = Inr s"
    and "\<forall>row\<in>set df. 0 < close row" and "0 \<le> transaction_cost_rate cfg" and "c0 \<le> 0"
  shows "trades s = []"
proof -
  have "idle_inv s1"
    using assms(1)
  proof (rule loop_invariant [where P = idle_inv])
    show "idle_inv (initial_sim c0)" using assms(5) by (simp add: idle_inv_def initial_sim_def)
  next
    fix s row s'
    assume "idle_inv s" "row \<in> set df" "backtest_step cfg s row = Inr s'"
    then show "idle_inv s'" using assms(3,4) step_idle_inv by blast
  qed
  then show ?thesis using assms(2) by (auto simp add: idle_inv_def final_liquidation_def)
qed

lemma cash_flow_split: "cash_flow rate t = cash_flow 0 t - rate * notional t"
  by (simp add: cash_flow_def algebra_simps)

lemma sum_cash_flow_split:
  "sum_list (map (cash_flow rate) tr) =
     sum_list (map (cash_flow 0) tr) - rate * sum_list (map notional tr)"
  by (induction tr) (simp_all add: cash_flow_split [of rate] algebra_simps)

lemma same_keys_sums:
  assumes "map trade_key tr1 = map trade_key tr2"
  shows "sum_list (map notional tr1) = sum_list (map notional tr2)"
    and "sum_list (map (cash_flow 0) tr1) = sum_list (map (cash_flow 0) tr2)"
proof -
  have n: "notional = (\<lambda>(t, a, p, q). of_int q * p) \<circ> trade_key"
    by (auto simp add: notional_def trade_key_def)
  have c: "cash_flow 0 = (\<lambda>(t, a, p, q). if a = ''BUY'' then - (of_int q * p) else of_int q * p)
             \<circ> trade_key"
    by (auto simp add: cash_flow_def notional_def trade_key_def)
  show "sum_list (map notional tr1) = sum_list (map notional tr2)"
    unfolding n map_map [symmetric] using assms by simp
  show "sum_list (map (cash_flow 0) tr1) = sum_list (map (cash_flow 0) tr2)"
    unfolding c map_map [symmetric] using assms by simp
qed

lemma notional_sum_nonneg:
  "list_all (\<lambda>t. 0 \<le> notional t) tr \<Longrightarrow> 0 \<le> sum_list (map notional tr)"
  by (induction tr) simp_all

text \<open>
  Claim C8. Two runs on the same validated series that differ in the cost rate only,
  \<open>0 \<le> r1 \<le> r2\<close>, and execute the same trade sequence (timestamps, actions, prices,
  quantities) with at least one round trip: the return of the run at \<open>r2\<close> is at most
  the return of the run at \<open>r1\<close>.
\<close>

theorem cost_rate_monotone:
  assumes "\<forall>row\<in>set df. 0 < close row"
    and "0 \<le> r1" and "r1 \<le> r2"
    and "execute_backtest (cfg\<lparr>transaction_cost_rate := r1\<rparr>) df tick c0 sd ed = Inr res1"
    and "execute_backtest (cfg\<lparr>transaction_cost_rate := r2\<rparr>) df tick c0 sd ed = Inr res2"
    and "map trade_key (BacktestResult.trades res1) = map trade_key (BacktestResult.trades res2)"
    and "1 \<le> total_trades res1"
  shows "total_return_pct res2 \<le> total_return_pct res1"
proof -
  let ?c1 = "cfg\<lparr>transaction_cost_rate := r1\<rparr>" and ?c2 = "cfg\<lparr>transaction_cost_rate := r2\<rparr>"
  obtain s1 t1 where run1: "backtest_loop ?c1 (initial_sim c0) df = Inr s1"
      "final_liquidation ?c1 df s1 = Inr t1" "c0 \<noteq> 0"
    using assms(4) by (rule execute_backtest_runs)
  obtain s2 t2 where run2: "backtest_loop ?c2 (initial_sim c0) df = Inr s2"
      "final_liquidation ?c2 df s2 = Inr t2"
    using assms(5) by (rule execute_backtest_runs)
  have res1: "BacktestResult.trades res1 = trades t1"
      "total_return_pct res1 = (capital t1 - c0) / c0 * 100"
      "total_trades res1 = min (count_action ''BUY'' (trades t1)) (count_action ''SELL'' (trades t1))"
    using execute_backtest_Inr [OF run1, of tick sd ed] assms(4) by auto
  have res2: "BacktestResult.trades res2 = trades t2"
      "total_return_pct res2 = (capital t2 - c0) / c0 * 100"
    using execute_backtest_Inr [OF run2 run1(3), of tick sd ed] assms(5) by auto
  have f1: "flow_inv c0 r1 t1" using run_flow_inv [OF run1(1,2) assms(1)] by simp
  have f2: "flow_inv c0 r2 t2" using run_flow_inv [OF run2(1,2) assms(1)] by simp
  have keys: "map trade_key (trades t1) = map trade_key (trades t2)"
    using assms(6) res1(1) res2(1) by simp
  have "trades t1 \<noteq> []"
    using assms(7) res1(3) by (auto simp add: count_action_def)
  then have "\<not> c0 \<le> 0"
    using run_idle [OF run1(1,2) assms(1)] assms(2) by auto
  then have pos: "0 < c0" by simp
  have n: "0 \<le> sum_list (map notional (trades t1))"
    using f1 by (simp add: flow_inv_def notional_sum_nonneg)
  have "capital t2 = c0 + sum_list (map (cash_flow 0) (trades t1))
                      - r2 * sum_list (map notional (trades t1))"
    using f2 same_keys_sums [OF keys] by (simp add: flow_inv_def sum_cash_flow_split [of r2])
  moreover have "capital t1 = c0 + sum_list (map (cash_flow 0) (trades t1))
                      - r1 * sum_list (map notional (trades t1))"
    using f1 by (simp add: flow_inv_def sum_cash_flow_split [of r1])
  moreover have "r1 * sum_list (map notional (trades t1)) \<le> r2 * sum_list (map notional (trades t1))"
    using assms(3) n by (rule mult_right_mono)
  ultimately have "capital t2 \<le> capital t1" by simp
  then have "(capital t2 - c0) / c0 \<le> (capital t1 - c0) / c0"
    using pos by (simp add: divide_right_mono)
  then have "(capital t2 - c0) / c0 * 100 \<le> (capital t1 - c0) / c0 * 100"
    by (rule mult_right_mono) simp
  then show ?thesis by (simp only: res1(2) res2(2))
qed

lemma round_trip_run:
  "\<exists>r. execute_backtest ((example_config 0 (1 / 2))\<lparr>transaction_cost_rate := rate\<rparr>)
          [example_bar 1 100 ''BUY'', example_bar 2 110 ''SELL''] ''AAPL'' 10000 0 1 = Inr r \<and>
        BacktestResult.trades r =
          [\<lparr>timestamp = 1, action = ''BUY'', price = 100, quantity = 50, reason = ''BUY'',
            transaction_cost = 5000 * rate\<rparr>,
           \<lparr>timestamp = 2, action = ''SELL'', price = 110, quantity = 50, reason = ''SELL'',
            transaction_cost = 5500 * rate\<rparr>] \<and>
        total_trades r = 1 \<and>
        total_return_pct r = (500 - 10500 * rate) / 100"
  if "0 \<le> rate" "rate \<le> 1" for rate
proof -
  let ?cfg = "(example_config 0 (1 / 2))\<lparr>transaction_cost_rate := rate\<rparr>"
  let ?b = "\<lparr>timestamp = 1, action = ''BUY'', price = 100, quantity = 50, reason = ''BUY'',
            transaction_cost = 5000 * rate\<rparr>"
  let ?s = "\<lparr>timestamp = 2, action = ''SELL'', price = 110, quantity = 50, reason = ''SELL'',
            transaction_cost = 5500 * rate\<rparr>"
  let ?t = "\<lparr>capital = 10500 - 10500 * rate, position = 0, entry_price = 0, trades = [?b, ?s],
            portfolio_values = [10000 - 5000 * rate, 10500 - 10500 * rate],
            total_transaction_cost = 10500 * rate\<rparr>"
  have loop: "backtest_loop ?cfg (initial_sim 10000)
          [example_bar 1 100 ''BUY'', example_bar 2 110 ''SELL''] = Inr ?t"
    using that
    by (simp add: example_config_def example_bar_def initial_sim_def backtest_step_def
        stop_loss_hit_def buy_branch_def sell_branch_def record_value_def Let_def algebra_simps)
  have fin: "final_liquidation ?cfg [example_bar 1 100 ''BUY'', example_bar 2 110 ''SELL''] ?t
          = Inr ?t"
    by (simp add: final_liquidation_def)
  show ?thesis
    using execute_backtest_Inr [OF loop fin, of "''AAPL''" 0 1]
    by (auto simp add: count_action_def algebra_simps)
qed

theorem cost_rate_monotone_witness:
  "\<exists>res1 res2.
     execute_backtest ((example_config 0 (1 / 2))\<lparr>transaction_cost_rate := 0\<rparr>)
       [example_bar 1 100 ''BUY'', example_bar 2 110 ''SELL''] ''AAPL'' 10000 0 1 = Inr res1 \<and>
     execute_backtest ((example_config 0 (1 / 2))\<lparr>transaction_cost_rate := 1 / 100\<rparr>)
       [example_bar 1 100 ''BUY'', example_bar 2 110 ''SELL''] ''AAPL'' 10000 0 1 = Inr res2 \<and>
     total_return_pct res1 = 5 \<and> total_return_pct res2 = 395 / 100 \<and>
     total_return_pct res2 \<le> total_return_pct res1"
proof -
  let ?df = "[example_bar 1 100 ''BUY'', example_bar 2 110 ''SELL'']"
  obtain res1 where res1:
      "execute_backtest ((example_config 0 (1 / 2))\<lparr>transaction_cost_rate := 0\<rparr>)
         ?df ''AAPL'' 10000 0 1 = Inr res1"
      "BacktestResult.trades res1 =
          [\<lparr>timestamp = 1, action = ''BUY'', price = 100, quantity = 50, reason = ''BUY'',
            transaction_cost = 5000 * 0\<rparr>,
           \<lparr>timestamp = 2, action = ''SELL'', price = 110, quantity = 50, reason = ''SELL'',
            transaction_cost = 5500 * 0\<rparr>]"
      "total_trades res1 = 1" "total_return_pct res1 = (500 - 10500 * 0) / 100"
    using round_trip_run [of 0] by auto
  obtain res2 where res2:
      "execute_backtest ((example_config 0 (1 / 2))\<lparr>transaction_cost_rate := 1 / 100\<rparr>)
         ?df ''AAPL'' 10000 0 1 = Inr res2"
      "BacktestResult.trades res2 =
          [\<lparr>timestamp = 1, action = ''BUY'', price = 100, quantity = 50, reason = ''BUY'',
            transaction_cost = 5000 * (1 / 100)\<rparr>,
           \<lparr>timestamp = 2, action = ''SELL'', price = 110, quantity = 50, reason = ''SELL'',
            transaction_cost = 5500 * (1 / 100)\<rparr>]"
      "total_return_pct res2 = (500 - 10500 * (1 / 100)) / 100"
    using round_trip_run [of "1 / 100"] by auto
  have prices: "\<forall>row\<in>set ?df. 0 < close row" by (simp add: example_bar_def)
  have keys: "map trade_key (BacktestResult.trades res1) = map trade_key (BacktestResult.trades res2)"
    by (simp add: res1(2) res2(2) trade_key_def)
  have some: "1 \<le> total_trades res1" by (simp add: res1(3))
  have "total_return_pct res2 \<le> total_return_pct res1"
    using cost_rate_monotone [OF prices _ _ res1(1) res2(1) keys some] by simp
  moreover have "total_return_pct res1 = 5" "total_return_pct res2 = 395 / 100"
    by (simp_all add: res1(4) res2(3))
  ultimately show ?thesis using res1(1) res2(1) by blast
qed

section \<open>Properties of the signal generators\<close>













subsection \<open>The trend filter at 10 percent\<close>

text \<open>
  A change of 10 percent over 20 rows, from 100 to 110. The double computed for it is
  \<^verbatim>\<open>0.10000000000000009\<close>, above the double of \<^verbatim>\<open>0.10\<close>: the trend counts as
  strong, and the SELL of the level is held.
\<close>

lemma trend_filtered_ten_percent:
  "trend_filtered_signal (replicate 20 100 @ [110]) 20
     \<lparr>ts = 21, open_price = 110, high = 110, low = 110, close = 110, volume = 0,
      rsi14 = None, macd = None, macd_signal = None, stoch_k = None, cci14 = None,
      roc = None, level = Some ''SELL''\<rparr> = ''HOLD''"
proof -
  have h1: "f64_div 110 100 = 2476979795053773 / 2251799813685248"
    unfolding f64_div_def by (rule round_double_eqI [where e = "0" and m = "4953959590107546"])
       (simp_all add: round_half_even_def)
  have h2: "f64_sub (2476979795053773 / 2251799813685248) 1 = 225179981368525 / 2251799813685248"
    unfolding f64_sub_def by (rule round_double_eqI [where e = "- 4" and m = "7205759403792800"])
       (simp_all add: round_half_even_def)
  have h3: "round_double (1 / 10) = 3602879701896397 / 36028797018963968"
    by (rule round_double_eqI [where e = "- 4" and m = "7205759403792794"])
       (simp_all add: round_half_even_def)
  have change: "pct_change_at 20 (replicate 20 100 @ [110]) 20 = Finite (225179981368525 / 2251799813685248)"
    by (simp add: pct_change_at_def float_div_f64_def nth_append h1 h2 h3)
  show ?thesis
    by (simp add: trend_filtered_signal_def rolling_mean_def base_signal_def change Let_def
        h1 h2 h3)
qed

subsection \<open>Validation and missing values\<close>

lemma empty_candles_rejected:
  "run_signal_backtest cfg [] inds summ tick c0 sd ed strategy =
     Inl (ValueError (''No candle data found for '' @ tick))"
  by (simp add: run_signal_backtest_def validate_data_def)

lemma bad_price_rejected:
  assumes "candles \<noteq> []"
    and "list_ex (\<lambda>c. candle_open c \<le> 0 \<or> candle_high c \<le> 0 \<or> candle_low c \<le> 0 \<or>
                      candle_close c \<le> 0) candles"
  shows "\<exists>col. col \<in> set [''open'', ''high'', ''low'', ''close''] \<and>
           run_signal_backtest cfg candles inds summ tick c0 sd ed strategy =
             Inl (ValueError (''Invalid price data detected in '' @ col))"
proof -
  have "list_ex (\<lambda>c. candle_open c \<le> 0) candles \<or> list_ex (\<lambda>c. candle_high c \<le> 0) candles \<or>
        list_ex (\<lambda>c. candle_low c \<le> 0) candles \<or> list_ex (\<lambda>c. candle_close c \<le> 0) candles"
    using assms(2) by (auto simp add: list_ex_iff)
  then show ?thesis
    using assms(1) by (auto simp add: run_signal_backtest_def validate_data_def)
qed

lemma unknown_strategy_rejected:
  assumes "validate_data candles tick = None" and "strategy \<notin> set strategy_names"
  shows "run_signal_backtest cfg candles inds summ tick c0 sd ed strategy =
           Inl (ValueError (''Unknown strategy: '' @ strategy))"
  using assms
  by (simp add: run_signal_backtest_def generate_signals_def strategy_names_def Let_def)

text \<open>A row without a level (or without the oscillator a strategy reads) is held.\<close>

lemma missing_level_holds:
  assumes "level row = None"
  shows "summary_signal row = ''HOLD''"
    and "trend_filtered_signal closes i row = ''HOLD''"
    and "market_adaptive_signal closes i row = ''HOLD''"
    and "low_frequency_signal closes i row = ''HOLD''"
    and "adx_filtered_signal rows i row = ''HOLD''"
    and "fst (position_sizing_row closes i row) = ''HOLD''"
    and "hd (low_frequency_loop closes last_idx ((i, row) # rest)) = ''HOLD''"
    and "hd (buy_hold_first_loop closes held ((i, row) # rest)) = ''HOLD''"
  using assms
  by (simp_all add: summary_signal_def trend_filtered_signal_def market_adaptive_signal_def
      low_frequency_signal_def adx_filtered_signal_def position_sizing_row_def level_in_def
      Let_def)

lemma missing_oscillator_holds:
  "rsi14 row = None \<Longrightarrow> rsi_signal row = ''HOLD''"
  "rsi14 row = None \<or> stoch_k row = None \<or> cci14 row = None \<Longrightarrow>
     momentum_reversal_signal row = ''HOLD''"
  "macd row = None \<or> macd_signal row = None \<Longrightarrow>
     hd (macd_signals_from prev (row # rest)) = ''HOLD''"
  by (auto simp add: rsi_signal_def momentum_reversal_signal_def macd_diff_def
      macd_signal_of_def split: option.splits)


text \<open>
  Claim C6, where the code departs from it. Validation and the unknown strategy are
  rejected as the three lemmas above say, and a NaN in a row is held. But a frame
  built from an empty indicator table has no column \<^verbatim>\<open>macd\<close>, and
  \<^verbatim>\<open>_generate_macd_signals\<close> indexes the column before it looks at any row: two
  valid candles, no indicator rows and the strategy \<^verbatim>\<open>macd\<close> raise
  \<^verbatim>\<open>KeyError\<close>, where \<^verbatim>\<open>rsi\<close>, which reads its column through \<^verbatim>\<open>row.get\<close>,
  holds every row and returns a result without trades.
\<close>

theorem macd_without_indicators:
  "run_signal_backtest default_config [example_candle 1 100, example_candle 2 101] []
     [\<lparr>summary_ts = 1, summary_level = ''BUY''\<rparr>] ''AAPL'' 100000 0 1 ''macd''
     = Inl (KeyError ''macd'') \<and>
   (\<exists>r. run_signal_backtest default_config [example_candle 1 100, example_candle 2 101] []
          [\<lparr>summary_ts = 1, summary_level = ''BUY''\<rparr>] ''AAPL'' 100000 0 1 ''rsi'' = Inr r \<and>
        BacktestResult.trades r = [])"
proof
  show "run_signal_backtest default_config [example_candle 1 100, example_candle 2 101] []
     [\<lparr>summary_ts = 1, summary_level = ''BUY''\<rparr>] ''AAPL'' 100000 0 1 ''macd''
     = Inl (KeyError ''macd'')"
    by (simp add: run_signal_backtest_def validate_data_def example_candle_def
        merge_backtest_data_def generate_signals_def generate_macd_signals_def Let_def)
next
  let ?rows = "generate_rsi_signals (merge_backtest_data
      [example_candle 1 100, example_candle 2 101] [] [\<lparr>summary_ts = 1, summary_level = ''BUY''\<rparr>])"
  let ?s = "\<lparr>capital = 100000, position = 0, entry_price = 0, trades = [],
            portfolio_values = [100000, 100000], total_transaction_cost = 0\<rparr>"
  have loop: "backtest_loop default_config (initial_sim 100000) ?rows = Inr ?s"
    by (simp add: generate_rsi_signals_def merge_backtest_data_def left_join_def
        candle_row_def with_summary_def example_candle_def set_signals_def with_signal_def
        rsi_signal_def backtest_step_def stop_loss_hit_def record_value_def initial_sim_def
        Let_def)
  have fin: "final_liquidation default_config ?rows ?s = Inr ?s"
    by (simp add: final_liquidation_def)
  obtain r where "execute_backtest default_config ?rows ''AAPL'' 100000 0 1 = Inr r"
    "BacktestResult.trades r = []"
    using execute_backtest_Inr [OF loop fin, of "''AAPL''" 0 1] by auto
  then show "\<exists>r. run_signal_backtest default_config [example_candle 1 100, example_candle 2 101] []
          [\<lparr>summary_ts = 1, summary_level = ''BUY''\<rparr>] ''AAPL'' 100000 0 1 ''rsi'' = Inr r \<and>
        BacktestResult.trades r = []"
    by (simp add: run_signal_backtest_def validate_data_def example_candle_def
        generate_signals_def Let_def)
qed

end
